theory Spec2Isabelle
  imports Complex_Main "HOL-Library.Multiset" "HOL-Library.AList" "HOL-Library.Log_Nat"
    "HOL-Library.List_Lexorder" "HOL-Library.Char_ord"
begin

section \<open>Subscriber tables\<close>

text \<open>
  Both engines keep their push subscribers in one SQLite table whose primary key is the
  Telegram user id. A table is modelled as the list of its rows; the primary-key
  constraint is the predicate \<open>distinct (map user_id rows)\<close>, which every operation
  below preserves.

  \<^bold>\<open>Push engine\<close> (\<^verbatim>\<open>src/bot/database.py\<close>): table \<^verbatim>\<open>users(user_id, pushover_key,
  last_notification_at REAL)\<close>. Times are Python floats holding Unix seconds; they are
  modelled as exact rationals, so rounding inside a float subtraction is not represented.
\<close>

record user_row =
  user_id :: int
  pushover_key :: string
  last_notification_at :: "rat option"

text \<open>
  \<^verbatim>\<open>INSERT INTO users (user_id, pushover_key) VALUES (?, ?)
  ON CONFLICT(user_id) DO UPDATE SET pushover_key = excluded.pushover_key\<close>
  A new row takes the column default \<^verbatim>\<open>NULL\<close> for \<^verbatim>\<open>last_notification_at\<close>.
\<close>

fun upsert_user :: "int \<Rightarrow> string \<Rightarrow> user_row list \<Rightarrow> user_row list" where
  "upsert_user uid k [] =
     [\<lparr>user_id = uid, pushover_key = k, last_notification_at = None\<rparr>]"
| "upsert_user uid k (r # rs) =
     (if user_id r = uid then r\<lparr>pushover_key := k\<rparr> # rs
      else r # upsert_user uid k rs)"

text \<open>\<^verbatim>\<open>SELECT ... FROM users WHERE user_id = ?\<close> with \<^verbatim>\<open>fetchone()\<close>.\<close>

definition get_user :: "int \<Rightarrow> user_row list \<Rightarrow> user_row option" where
  "get_user uid rows = find (\<lambda>r. user_id r = uid) rows"

text \<open>\<^verbatim>\<open>UPDATE users SET last_notification_at = ? WHERE user_id = ?\<close>; the value is the
  clock reading \<^verbatim>\<open>time.time()\<close> taken inside the helper, passed here as \<open>t\<close>.\<close>

definition update_last_notification :: "rat \<Rightarrow> int \<Rightarrow> user_row list \<Rightarrow> user_row list" where
  "update_last_notification t uid rows =
     map (\<lambda>r. if user_id r = uid then r\<lparr>last_notification_at := Some t\<rparr> else r) rows"

text \<open>
  \<^bold>\<open>Poll engine\<close> (\<^verbatim>\<open>src/lighter_bot/infrastructure/persistence/subscription_store.py\<close>):
  table \<^verbatim>\<open>pushover_subscriptions(user_id, pushover_user_key, last_notification_at TEXT)\<close>.
  The text column holds \<^verbatim>\<open>datetime.isoformat()\<close> of a UTC instant; SQLite compares these
  strings bytewise, which for four-digit years orders them as the instants themselves
  (a missing fraction sorts first because \<^verbatim>\<open>+\<close> precedes \<^verbatim>\<open>.\<close>). An instant is therefore
  modelled as an integer number of microseconds since the epoch.
\<close>

record subscription_row =
  sub_user_id :: int
  pushover_user_key :: string
  sub_last_notification_at :: "int option"

text \<open>
  \<^verbatim>\<open>INSERT INTO pushover_subscriptions(user_id, pushover_user_key, last_notification_at)
  VALUES(?, ?, NULL)
  ON CONFLICT(user_id) DO UPDATE SET pushover_user_key=excluded.pushover_user_key\<close>
\<close>

fun upsert_subscription :: "int \<Rightarrow> string \<Rightarrow> subscription_row list \<Rightarrow> subscription_row list" where
  "upsert_subscription uid k [] =
     [\<lparr>sub_user_id = uid, pushover_user_key = k, sub_last_notification_at = None\<rparr>]"
| "upsert_subscription uid k (r # rs) =
     (if sub_user_id r = uid then r\<lparr>pushover_user_key := k\<rparr> # rs
      else r # upsert_subscription uid k rs)"

text \<open>The row stored for a user id, if any (the table read back by primary key).\<close>

definition get_subscription :: "int \<Rightarrow> subscription_row list \<Rightarrow> subscription_row option" where
  "get_subscription uid rows = find (\<lambda>r. sub_user_id r = uid) rows"

text \<open>\<^verbatim>\<open>UPDATE pushover_subscriptions SET last_notification_at = ? WHERE user_id = ?\<close>\<close>

definition mark_notified :: "int \<Rightarrow> int \<Rightarrow> subscription_row list \<Rightarrow> subscription_row list" where
  "mark_notified uid t rows =
     map (\<lambda>r. if sub_user_id r = uid then r\<lparr>sub_last_notification_at := Some t\<rparr> else r) rows"


section \<open>Poll engine: watermark, dispatch and one ingestion cycle\<close>

text \<open>
  \<^verbatim>\<open>src/lighter_bot/domain/models.py\<close>: \<^verbatim>\<open>Trade(ts: datetime, direction: Literal["Buy",
  "Sell"], usd_size: Decimal)\<close>. A trade has no identifier and no market. \<^verbatim>\<open>ts\<close> is an
  instant in microseconds; \<^verbatim>\<open>usd_size\<close> is a \<^verbatim>\<open>Decimal\<close>, modelled as an exact rational
  (the rounding of Python's decimal context to 28 significant digits is not represented).
\<close>

datatype direction = Buy | Sell

record trade =
  ts :: int
  direction :: direction
  usd_size :: rat

text \<open>
  \<^verbatim>\<open>run_once\<close>, lines 54-59: the batch is sorted by \<^verbatim>\<open>ts\<close> with Python's stable \<^verbatim>\<open>sorted\<close>
  and filtered by \<^verbatim>\<open>last_processed_ts is None or trade.ts > last_processed_ts\<close>.
  \<^const>\<open>sort_key\<close> is insertion sort, stable as well.
\<close>

definition is_fresh :: "int option \<Rightarrow> trade \<Rightarrow> bool" where
  "is_fresh last_processed_ts t =
     (case last_processed_ts of None \<Rightarrow> True | Some l \<Rightarrow> l < ts t)"

definition admit :: "int option \<Rightarrow> trade list \<Rightarrow> trade list" where
  "admit last_processed_ts trades = filter (is_fresh last_processed_ts) (sort_key ts trades)"


text \<open>
  \<^verbatim>\<open>list_eligible_subscriptions\<close>: \<^verbatim>\<open>cutoff = now - cooldown\<close> and
  \<^verbatim>\<open>WHERE last_notification_at IS NULL OR last_notification_at <= cutoff\<close>; the result is
  the list of \<^verbatim>\<open>Subscription(user_id, pushover_user_key)\<close>.
\<close>

definition is_eligible :: "int \<Rightarrow> int \<Rightarrow> subscription_row \<Rightarrow> bool" where
  "is_eligible now cooldown r =
     (case sub_last_notification_at r of None \<Rightarrow> True | Some l \<Rightarrow> l \<le> now - cooldown)"

definition list_eligible_subscriptions ::
    "int \<Rightarrow> int \<Rightarrow> subscription_row list \<Rightarrow> (int \<times> string) list" where
  "list_eligible_subscriptions now cooldown rows =
     map (\<lambda>r. (sub_user_id r, pushover_user_key r)) (filter (is_eligible now cooldown) rows)"










section \<open>Python exceptions and floats\<close>

text \<open>The exceptions the modelled code can raise. \<open>DatabaseError\<close> stands for an error of
  the SQLite connection.\<close>

datatype py_error = ValueError | TypeError | OverflowError | AttributeError | DatabaseError

text \<open>
  A Python float is an IEEE-754 binary64 number. A finite float is modelled by its exact
  value, a rational; where a float can also be \<^verbatim>\<open>inf\<close> or \<^verbatim>\<open>nan\<close> the type is
  \<^typ>\<open>rat option\<close> and \<open>None\<close> stands for both. The sign of zero is not kept.

  \<open>binary_exponent x\<close> is the integer \<open>e\<close> with \<open>2 powi e \<le> \<bar>x\<bar> < 2 powi (e + 1)\<close>
  (lemma \<open>binary_exponent_bounds\<close>), computed from bit lengths.
\<close>

definition binary_exponent :: "rat \<Rightarrow> int" where
  "binary_exponent x =
     (if 1 \<le> \<bar>x\<bar> then bitlen \<lfloor>\<bar>x\<bar>\<rfloor> - 1 else - bitlen (\<lceil>1 / \<bar>x\<bar>\<rceil> - 1))"

text \<open>Rounding to the nearest integer, a tie going to the even one.\<close>

definition round_half_even :: "rat \<Rightarrow> int" where
  "round_half_even m =
     (let f = \<lfloor>m\<rfloor>; r = m - of_int f
      in if r < 1 / 2 then f else if 1 / 2 < r then f + 1 else if even f then f else f + 1)"

text \<open>
  Rounding a real number to binary64, as every float operation does with its exact
  result: 53 significant bits, ties to even; below \<^verbatim>\<open>2**-1022\<close> the spacing stays
  \<^verbatim>\<open>2**-1074\<close> (subnormal numbers). \<open>to_double\<close> adds the overflow: a rounded
  magnitude of \<^verbatim>\<open>2**1024\<close> or more is \<^verbatim>\<open>inf\<close>.
\<close>

definition fl :: "rat \<Rightarrow> rat" where
  "fl x =
     (if x = 0 then 0
      else let e = max (binary_exponent x) (- 1022) - 52
           in of_int (round_half_even (x / 2 powi e)) * 2 powi e)"

definition to_double :: "rat \<Rightarrow> rat option" where
  "to_double x = (let y = fl x in if 2 ^ 1024 \<le> \<bar>y\<bar> then None else Some y)"

text \<open>\<^verbatim>\<open>a + b\<close> on floats: the exact sum, rounded. \<^verbatim>\<open>inf\<close> and \<^verbatim>\<open>nan\<close> absorb every
  finite summand, and a sum of two of them is again one of them.\<close>

definition fadd :: "rat option \<Rightarrow> rat option \<Rightarrow> rat option" where
  "fadd a b =
     (case a of
        None \<Rightarrow> None
      | Some x \<Rightarrow> (case b of None \<Rightarrow> None | Some y \<Rightarrow> to_double (x + y)))"


section \<open>Poll engine: the Pushover client and the dispatch with its exceptions\<close>

text \<open>
  \<^verbatim>\<open>src/lighter_bot/infrastructure/http/pushover_client.py\<close>. What one
  \<^verbatim>\<open>self._http.post\<close> can do: raise \<^verbatim>\<open>httpx.TimeoutException\<close>, raise another
  \<^verbatim>\<open>httpx.HTTPError\<close>, or return a response. Of a response the client reads the status
  code, the \<^verbatim>\<open>Retry-After\<close> header and the body.

  \<^verbatim>\<open>int(response.headers.get("Retry-After", "2"))\<close>: the header is absent (the default
  \<^verbatim>\<open>"2"\<close> is read), holds a string that \<^verbatim>\<open>int()\<close> reads as an integer, or holds another
  string, an HTTP date for instance, on which \<^verbatim>\<open>int()\<close> raises \<^verbatim>\<open>ValueError\<close>.

  \<^verbatim>\<open>data = response.json(); data.get("status") == 1\<close>: the body is not JSON
  (\<^verbatim>\<open>json.JSONDecodeError\<close>), is a JSON object (the boolean is whether its \<^verbatim>\<open>status\<close>
  equals 1), or is JSON of another kind (a list, a string, a number, \<^verbatim>\<open>null\<close>), which
  has no \<^verbatim>\<open>get\<close>: \<^verbatim>\<open>AttributeError\<close>.
\<close>

datatype retry_after = Header_absent | Header_int int | Header_other

datatype json_body = Body_invalid | Body_object bool | Body_other

datatype http_result = Timeout | Http_error | Response nat retry_after json_body

text \<open>
  The loop \<^verbatim>\<open>for attempt in range(1, self.settings.max_retries + 1)\<close>, lines 30-73, with
  \<open>n\<close> the number of attempts left and \<open>http attempt\<close> what the post of that attempt
  does. The two \<^verbatim>\<open>except\<close> clauses catch \<^verbatim>\<open>httpx.TimeoutException\<close> (next attempt) and
  \<^verbatim>\<open>(httpx.HTTPError, json.JSONDecodeError)\<close> (return \<^verbatim>\<open>False\<close>); \<^verbatim>\<open>ValueError\<close> and
  \<^verbatim>\<open>AttributeError\<close> are not among them and leave the function. \<^verbatim>\<open>raise_for_status()\<close>
  raises an \<^verbatim>\<open>httpx.HTTPStatusError\<close>, an \<^verbatim>\<open>HTTPError\<close>, for a status outside 200-299.
  The sleeps between attempts take time and change nothing else; they are left out.
\<close>

fun send_attempts :: "nat \<Rightarrow> nat \<Rightarrow> (nat \<Rightarrow> http_result) \<Rightarrow> py_error + bool" where
  "send_attempts attempt 0 http = Inr False"
| "send_attempts attempt (Suc n) http =
     (case http attempt of
        Timeout \<Rightarrow> send_attempts (attempt + 1) n http
      | Http_error \<Rightarrow> Inr False
      | Response code retry body \<Rightarrow>
          if code = 429 then
            (case retry of
               Header_other \<Rightarrow> Inl ValueError
             | _ \<Rightarrow> send_attempts (attempt + 1) n http)
          else if 500 \<le> code \<and> code < 600 then send_attempts (attempt + 1) n http
          else if \<not> (200 \<le> code \<and> code < 300) then Inr False
          else (case body of
                  Body_invalid \<Rightarrow> Inr False
                | Body_object status_is_1 \<Rightarrow> Inr status_is_1
                | Body_other \<Rightarrow> Inl AttributeError))"

definition send_sell_notification :: "int \<Rightarrow> (nat \<Rightarrow> http_result) \<Rightarrow> py_error + bool" where
  "send_sell_notification max_retries http = send_attempts 1 (nat max_retries) http"

text \<open>One call of \<^verbatim>\<open>send_sell_notification\<close> made for a subscriber, with what it
  returned or raised.\<close>

datatype attempt = Attempt int "py_error + bool"

text \<open>
  The loop of \<^verbatim>\<open>_send_pushover_sell_alert\<close>, lines 103-109, as it is written: no
  \<^verbatim>\<open>try\<close> surrounds the two awaits, so an exception of \<^verbatim>\<open>send_sell_notification\<close> or of
  \<^verbatim>\<open>mark_notified\<close> ends the loop and leaves \<^verbatim>\<open>run_once\<close>. \<open>send uid\<close> is the call made
  for subscriber \<open>uid\<close>; \<open>write_ok uid\<close> says whether the SQLite write of
  \<^verbatim>\<open>mark_notified\<close> for that subscriber succeeds (when it fails the row is as before).
  The third component of the result is the exception that ended the loop, if any.
\<close>

fun alert_loop ::
    "(int \<Rightarrow> py_error + bool) \<Rightarrow> (int \<Rightarrow> bool) \<Rightarrow> int \<Rightarrow> (int \<times> string) list \<Rightarrow>
       subscription_row list \<Rightarrow> attempt list \<times> subscription_row list \<times> py_error option" where
  "alert_loop send write_ok now [] db = ([], db, None)"
| "alert_loop send write_ok now ((uid, key) # subs) db =
     (case send uid of
        Inl e \<Rightarrow> ([Attempt uid (Inl e)], db, Some e)
      | Inr sent \<Rightarrow>
          if sent \<and> \<not> write_ok uid then ([Attempt uid (Inr sent)], db, Some DatabaseError)
          else (case alert_loop send write_ok now subs
                       (if sent then mark_notified uid now db else db) of
                  (atts, db', err) \<Rightarrow> (Attempt uid (Inr sent) # atts, db', err)))"

text \<open>\<^verbatim>\<open>_send_pushover_sell_alert\<close>, lines 95-109. \<open>http uid\<close> is what the posts made for
  subscriber \<open>uid\<close> do, attempt by attempt.\<close>

definition pushover_sell_alert ::
    "int \<Rightarrow> int \<Rightarrow> int \<Rightarrow> int \<Rightarrow> (int \<Rightarrow> nat \<Rightarrow> http_result) \<Rightarrow> (int \<Rightarrow> bool) \<Rightarrow>
       subscription_row list \<Rightarrow> attempt list \<times> subscription_row list \<times> py_error option" where
  "pushover_sell_alert cooldown max_retries now_el now_st http write_ok db =
     (let subs = list_eligible_subscriptions now_el cooldown db in
      if subs = [] then ([], db, None)
      else alert_loop (\<lambda>uid. send_sell_notification max_retries (http uid)) write_ok now_st subs db)"


section \<open>Push engine: normalizer\<close>

text \<open>
  \<^verbatim>\<open>src/bot/lighter_ws.py\<close>. A raw trade is a decoded JSON object. The fields the code
  reads are kept: the two account ids and the trade id as the integers the feed documents
  (\<open>None\<close> when the key is absent or null), the market id as the string \<^verbatim>\<open>str()\<close> makes of
  it (\<open>None\<close> when the key is absent), and the two numeric fields \<^verbatim>\<open>usd_amount\<close> and
  \<^verbatim>\<open>timestamp\<close> as arbitrary JSON values, so that a malformed value can be written down
  (\<open>None\<close> when the key is absent).

  \<^verbatim>\<open>json.loads\<close> reads a number literal without fraction and exponent as an \<^verbatim>\<open>int\<close> of any
  size (\<open>JInt\<close>) and every other one as a float (\<open>JFloat\<close>, the float's value; literals
  that read as \<^verbatim>\<open>inf\<close> or \<^verbatim>\<open>nan\<close> are left out). A string comes with what \<^verbatim>\<open>float()\<close>
  makes of it: Python's grammar of float literals (exponents, white space, underscores,
  \<^verbatim>\<open>inf\<close>, \<^verbatim>\<open>nan\<close>, digits of other scripts) is not written out again here, so the
  reading is part of the value. \<open>Rejected\<close> is a string on which \<^verbatim>\<open>float()\<close> raises
  \<^verbatim>\<open>ValueError\<close>, as it does on the empty string whatever reading is attached;
  \<open>Reads v\<close> is a string it reads as the float \<open>v\<close>.
\<close>

datatype reading = Rejected | Reads "rat option"

datatype json =
    JNull
  | JBool bool
  | JInt int
  | JFloat rat
  | JStr string reading
  | JArr "json list"
  | JObj "(string \<times> json) list"

record raw_trade =
  trade_id :: "int option"
  market_id :: "string option"
  usd_amount :: "json option"
  timestamp :: "json option"
  bid_account_id :: "int option"
  ask_account_id :: "int option"

text \<open>Python truthiness of a JSON value.\<close>

fun truthy :: "json \<Rightarrow> bool" where
  "truthy JNull = False"
| "truthy (JBool b) = b"
| "truthy (JInt i) = (i \<noteq> 0)"
| "truthy (JFloat r) = (r \<noteq> 0)"
| "truthy (JStr s rd) = (s \<noteq> [])"
| "truthy (JArr xs) = (xs \<noteq> [])"
| "truthy (JObj kvs) = (kvs \<noteq> [])"

text \<open>
  \<^verbatim>\<open>float(x)\<close>: an \<^verbatim>\<open>int\<close> is rounded to the nearest float and raises \<^verbatim>\<open>OverflowError\<close>
  when that is out of range; \<^verbatim>\<open>None\<close>, a list and a dict raise \<^verbatim>\<open>TypeError\<close>.
\<close>

fun py_float :: "json \<Rightarrow> py_error + rat option" where
  "py_float JNull = Inl TypeError"
| "py_float (JBool b) = Inr (Some (if b then 1 else 0))"
| "py_float (JInt i) =
     (case to_double (of_int i) of None \<Rightarrow> Inl OverflowError | Some y \<Rightarrow> Inr (Some y))"
| "py_float (JFloat r) = Inr (Some r)"
| "py_float (JStr s rd) =
     (if s = [] then Inl ValueError
      else case rd of Rejected \<Rightarrow> Inl ValueError | Reads v \<Rightarrow> Inr v)"
| "py_float (JArr xs) = Inl TypeError"
| "py_float (JObj kvs) = Inl TypeError"

text \<open>\<^verbatim>\<open>float(trade.get(key) or 0)\<close>: an absent or falsy value gives \<^verbatim>\<open>float(0)\<close>.\<close>

definition float_or_zero :: "json option \<Rightarrow> py_error + rat option" where
  "float_or_zero v =
     (case v of
        None \<Rightarrow> Inr (Some 0)
      | Some x \<Rightarrow> if truthy x then py_float x else Inr (Some 0))"

text \<open>
  \<^verbatim>\<open>x / 1000.0\<close> for a truthy \<open>x\<close>: a bool or an \<^verbatim>\<open>int\<close> is first converted to a float
  (\<^verbatim>\<open>OverflowError\<close> when the \<^verbatim>\<open>int\<close> is out of range), the quotient is rounded; a
  string, a list and a dict raise \<^verbatim>\<open>TypeError\<close>.
\<close>

fun div_1000 :: "json \<Rightarrow> py_error + rat" where
  "div_1000 JNull = Inl TypeError"
| "div_1000 (JBool b) = Inr (fl ((if b then 1 else 0) / 1000))"
| "div_1000 (JInt i) =
     (case to_double (of_int i) of None \<Rightarrow> Inl OverflowError | Some y \<Rightarrow> Inr (fl (y / 1000)))"
| "div_1000 (JFloat r) = Inr (fl (r / 1000))"
| "div_1000 (JStr s rd) = Inl TypeError"
| "div_1000 (JArr xs) = Inl TypeError"
| "div_1000 (JObj kvs) = Inl TypeError"

text \<open>\<^verbatim>\<open>ts_ms = trade.get("timestamp"); ts_sec = (ts_ms / 1000.0) if ts_ms else now\<close>\<close>

definition ts_seconds :: "rat \<Rightarrow> json option \<Rightarrow> py_error + rat" where
  "ts_seconds now v =
     (case v of
        None \<Rightarrow> Inr now
      | Some x \<Rightarrow> if truthy x then div_1000 x else Inr now)"

datatype side = buy | sell | unknown

text \<open>\<^verbatim>\<open>_resolve_side\<close>: the bid side is tested first.\<close>

definition resolve_side :: "raw_trade \<Rightarrow> int \<Rightarrow> side" where
  "resolve_side trade account_id_int =
     (if bid_account_id trade = Some account_id_int then buy
      else if ask_account_id trade = Some account_id_int then sell
      else unknown)"

text \<open>
  The enriched dict \<^verbatim>\<open>{**trade, "_side": ..., "_ts": ..., "_usd": ..., "_market": ...,
  "_account_id": ..., "_received_at": now}\<close>. The fields with a leading underscore are
  named \<open>u_...\<close>. \<^verbatim>\<open>_usd\<close> can be \<^verbatim>\<open>inf\<close> or \<^verbatim>\<open>nan\<close> (from a string that reads so);
  \<^verbatim>\<open>_ts\<close> is finite.
\<close>

record enriched =
  raw :: raw_trade
  u_side :: side
  u_ts :: rat
  u_usd :: "rat option"
  u_market :: string
  u_account_id :: string
  u_received_at :: rat

text \<open>
  The body of the inner loop of \<^verbatim>\<open>_handle_message\<close>, lines 228-243, in Python's
  evaluation order: the timestamp first, then the dict literal with \<^verbatim>\<open>float(...)\<close>.
  \<open>account_id_int\<close> is \<^verbatim>\<open>int(settings.lighter_account_id)\<close>.
\<close>

definition enrich :: "string \<Rightarrow> int \<Rightarrow> rat \<Rightarrow> string \<Rightarrow> raw_trade \<Rightarrow> py_error + enriched" where
  "enrich account_id_str account_id_int now market_key trade =
     (case ts_seconds now (timestamp trade) of
        Inl e \<Rightarrow> Inl e
      | Inr ts_sec \<Rightarrow>
          (case float_or_zero (usd_amount trade) of
             Inl e \<Rightarrow> Inl e
           | Inr usd \<Rightarrow>
               Inr \<lparr>raw = trade,
                    u_side = resolve_side trade account_id_int,
                    u_ts = ts_sec,
                    u_usd = usd,
                    u_market = (case market_id trade of None \<Rightarrow> market_key | Some m \<Rightarrow> m),
                    u_account_id = account_id_str,
                    u_received_at = now\<rparr>))"

text \<open>The two nested loops over \<^verbatim>\<open>trades_by_market.items()\<close>: the first exception
  leaves the loops, so no later trade is looked at.\<close>

fun enrich_list ::
    "string \<Rightarrow> int \<Rightarrow> rat \<Rightarrow> string \<Rightarrow> raw_trade list \<Rightarrow> py_error + enriched list" where
  "enrich_list a ai now mk [] = Inr []"
| "enrich_list a ai now mk (t # rest) =
     (case enrich a ai now mk t of
        Inl e \<Rightarrow> Inl e
      | Inr x \<Rightarrow> (case enrich_list a ai now mk rest of Inl e \<Rightarrow> Inl e | Inr xs \<Rightarrow> Inr (x # xs)))"

fun enrich_all ::
    "string \<Rightarrow> int \<Rightarrow> rat \<Rightarrow> (string \<times> raw_trade list) list \<Rightarrow> py_error + enriched list" where
  "enrich_all a ai now [] = Inr []"
| "enrich_all a ai now ((mk, trade_list) # rest) =
     (case enrich_list a ai now mk trade_list of
        Inl e \<Rightarrow> Inl e
      | Inr xs \<Rightarrow> (case enrich_all a ai now rest of Inl e \<Rightarrow> Inl e | Inr ys \<Rightarrow> Inr (xs @ ys)))"


section \<open>Push engine: recent-trade window\<close>

text \<open>
  \<^verbatim>\<open>src/bot/redis_client.py\<close>. The window is a Redis sorted set: members are strings,
  each with one score. A member is \<^verbatim>\<open>json.dumps({**trade, "_member_id": str(trade_id)},
  sort_keys=True)\<close>, a canonical rendering of the dict, so two members are the same string
  exactly when the dicts are equal; a member is modelled as that dict.
  \<^verbatim>\<open>trade_id = trade.get("trade_id") or json.dumps(trade, sort_keys=True)\<close>: the id when
  it is present and not zero, the rendering of the whole trade otherwise.
\<close>

datatype member_id = Trade_id int | Content enriched

record member =
  m_trade :: enriched
  m_member_id :: member_id

definition member_of :: "enriched \<Rightarrow> member" where
  "member_of t =
     \<lparr>m_trade = t,
      m_member_id = (case trade_id (raw t) of
                       None \<Rightarrow> Content t
                     | Some i \<Rightarrow> if i \<noteq> 0 then Trade_id i else Content t)\<rparr>"

text \<open>
  The sorted set as an association list from member to score, in insertion order.
  \<^verbatim>\<open>ZADD\<close> sets the score of a member, adding the member when it is new.
  \<^verbatim>\<open>ZRANGEBYSCORE key min +inf\<close> returns the members with \<open>min \<le> score\<close> by ascending
  score; \<^verbatim>\<open>ZREMRANGEBYSCORE key -inf max\<close> removes the members with \<open>score \<le> max\<close> and
  returns how many it removed. Both bounds are inclusive, as Redis has them when no
  \<^verbatim>\<open>(\<close> prefix is written. Redis orders members of equal score by their bytes; here they
  keep insertion order.
\<close>

type_synonym zset = "(member \<times> rat) list"

definition zadd :: "(member \<times> rat) list \<Rightarrow> zset \<Rightarrow> zset" where
  "zadd mapping z = fold (\<lambda>(m, s) z. AList.update m s z) mapping z"

definition zrangebyscore_from :: "rat \<Rightarrow> zset \<Rightarrow> member list" where
  "zrangebyscore_from min_score z = map fst (sort_key snd (filter (\<lambda>(m, s). min_score \<le> s) z))"

definition zremrangebyscore_upto :: "rat \<Rightarrow> zset \<Rightarrow> zset \<times> nat" where
  "zremrangebyscore_upto max_score z =
     (filter (\<lambda>(m, s). \<not> s \<le> max_score) z, length (filter (\<lambda>(m, s). s \<le> max_score) z))"

definition TRADE_RETENTION_SECONDS :: rat where
  "TRADE_RETENTION_SECONDS = 360"

text \<open>
  \<^verbatim>\<open>store_trades\<close>: \<^verbatim>\<open>score = float(trade.get("_ts") or time.time())\<close>; the dict
  \<^verbatim>\<open>mapping\<close> is filled in batch order (a later equal member overwrites the score) and
  handed to \<^verbatim>\<open>ZADD\<close>. \<open>now\<close> is the clock read by the fallback.
\<close>

definition score_of :: "rat \<Rightarrow> enriched \<Rightarrow> rat" where
  "score_of now t = (if u_ts t \<noteq> 0 then u_ts t else now)"

definition store_trades :: "rat \<Rightarrow> enriched list \<Rightarrow> zset \<Rightarrow> zset" where
  "store_trades now trades z =
     (if trades = [] then z
      else zadd (fold (\<lambda>t mapping. AList.update (member_of t) (score_of now t) mapping) trades []) z)"

text \<open>\<^verbatim>\<open>purge_old_trades\<close>: \<^verbatim>\<open>cutoff = time.time() - TRADE_RETENTION_SECONDS\<close>, then
  \<^verbatim>\<open>zremrangebyscore(key, "-inf", cutoff)\<close>; returns the number removed.\<close>

definition purge_old_trades :: "rat \<Rightarrow> zset \<Rightarrow> zset \<times> nat" where
  "purge_old_trades now z = zremrangebyscore_upto (now - TRADE_RETENTION_SECONDS) z"

text \<open>\<^verbatim>\<open>get_recent_trades\<close>: \<^verbatim>\<open>min_score = time.time() - window_seconds\<close>, then
  \<^verbatim>\<open>zrangebyscore(key, min_score, "+inf")\<close>, each member decoded.\<close>

definition get_recent_trades :: "rat \<Rightarrow> rat option \<Rightarrow> zset \<Rightarrow> member list" where
  "get_recent_trades now window_seconds z =
     zrangebyscore_from
       (now - (case window_seconds of None \<Rightarrow> TRADE_RETENTION_SECONDS | Some w \<Rightarrow> w)) z"

text \<open>
  The trade-update branch of \<^verbatim>\<open>_handle_message\<close>, lines 218-257: enrich every trade,
  store and purge when there is any, and hand back the sells for the callback. The three
  clock readings are the one at line 224, the one inside \<^verbatim>\<open>store_trades\<close> and the one
  inside \<^verbatim>\<open>purge_old_trades\<close>.
\<close>

definition handle_trade_update ::
    "string \<Rightarrow> int \<Rightarrow> rat \<Rightarrow> rat \<Rightarrow> rat \<Rightarrow> (string \<times> raw_trade list) list \<Rightarrow> zset \<Rightarrow>
       py_error + (zset \<times> enriched list)" where
  "handle_trade_update account_id_str account_id_int now now_store now_purge trades_by_market z =
     (case enrich_all account_id_str account_id_int now trades_by_market of
        Inl e \<Rightarrow> Inl e
      | Inr all_trades \<Rightarrow>
          Inr (if all_trades = [] then z
               else fst (purge_old_trades now_purge (store_trades now_store all_trades z)),
               filter (\<lambda>t. u_side t = sell) all_trades))"

text \<open>
  One turn of \<^verbatim>\<open>_receive_loop\<close> on a trade update: \<^verbatim>\<open>except Exception\<close> logs and goes on
  to the next message. An exception in the enrichment happens before anything is stored,
  so the window is as it was and no sell is dispatched.
\<close>

definition receive_trade_update ::
    "string \<Rightarrow> int \<Rightarrow> rat \<Rightarrow> rat \<Rightarrow> rat \<Rightarrow> (string \<times> raw_trade list) list \<Rightarrow> zset \<Rightarrow>
       zset \<times> enriched list" where
  "receive_trade_update account_id_str account_id_int now now_store now_purge trades_by_market z =
     (case handle_trade_update account_id_str account_id_int now now_store now_purge
             trades_by_market z of
        Inl e \<Rightarrow> (z, [])
      | Inr r \<Rightarrow> r)"


section \<open>Push engine: personal notifications\<close>

text \<open>
  \<^verbatim>\<open>src/bot/pushover.py\<close>. The outcome of one \<^verbatim>\<open>client.post\<close>: a response with its
  status code, or an \<^verbatim>\<open>httpx.RequestError\<close>.
\<close>

datatype response = Status nat | Request_error

text \<open>
  \<^verbatim>\<open>if last_notified and (now - last_notified) < _COOLDOWN_SECONDS: continue\<close>. The first
  conjunct is Python truthiness: \<^verbatim>\<open>None\<close> and \<^verbatim>\<open>0.0\<close> are both falsy. The difference of
  the two clock readings is taken exact.
\<close>

definition in_cooldown :: "rat \<Rightarrow> rat \<Rightarrow> rat option \<Rightarrow> bool" where
  "in_cooldown now cooldown last_notified =
     (case last_notified of None \<Rightarrow> False | Some l \<Rightarrow> l \<noteq> 0 \<and> now - l < cooldown)"

text \<open>One \<^verbatim>\<open>client.post\<close> made for a user, with what came back.\<close>

datatype push_event = Posted int string response

text \<open>
  The loop of \<^verbatim>\<open>notify_sell\<close>, lines 58-91, over the rows read at the start. \<open>post uid\<close>
  is the outcome of the post made for user \<open>uid\<close>, \<open>clock uid\<close> the time
  \<^verbatim>\<open>update_last_notification\<close> reads when it stamps that user. Only status 200 stamps.
  The \<^verbatim>\<open>try\<close> catches \<^verbatim>\<open>httpx.RequestError\<close> only: when the SQLite write of
  \<^verbatim>\<open>update_last_notification\<close> fails (\<open>write_ok uid\<close> is false) the exception ends the
  loop and leaves \<^verbatim>\<open>notify_sell\<close>. The third component of the result is that exception,
  if any.
\<close>

fun notify_loop ::
    "rat \<Rightarrow> rat \<Rightarrow> (int \<Rightarrow> response) \<Rightarrow> (int \<Rightarrow> rat) \<Rightarrow> (int \<Rightarrow> bool) \<Rightarrow> user_row list \<Rightarrow>
       user_row list \<Rightarrow> push_event list \<times> user_row list \<times> py_error option" where
  "notify_loop now cooldown post clock write_ok [] db = ([], db, None)"
| "notify_loop now cooldown post clock write_ok (user # users) db =
     (if in_cooldown now cooldown (last_notification_at user)
      then notify_loop now cooldown post clock write_ok users db
      else if post (user_id user) = Status 200 \<and> \<not> write_ok (user_id user)
      then ([Posted (user_id user) (pushover_key user) (Status 200)], db, Some DatabaseError)
      else (case notify_loop now cooldown post clock write_ok users
                   (if post (user_id user) = Status 200
                    then update_last_notification (clock (user_id user)) (user_id user) db
                    else db) of
              (evs, db', err) \<Rightarrow>
                (Posted (user_id user) (pushover_key user) (post (user_id user)) # evs, db', err)))"

text \<open>
  \<^verbatim>\<open>usd = trade.get("_usd") or trade.get("usd_amount", "?")\<close> and then \<^verbatim>\<open>float(usd)\<close> inside
  the message body: a zero \<^verbatim>\<open>_usd\<close> falls back to the raw field, and to the string
  \<^verbatim>\<open>"?"\<close>, which \<^verbatim>\<open>float()\<close> rejects, when the raw field is absent.
\<close>

definition message_usd :: "enriched \<Rightarrow> py_error + rat option" where
  "message_usd trade =
     (if u_usd trade \<noteq> Some 0 then Inr (u_usd trade)
      else case usd_amount (raw trade) of None \<Rightarrow> Inl ValueError | Some x \<Rightarrow> py_float x)"

text \<open>
  \<^verbatim>\<open>notify_sell\<close>: return at once when there are no users; build the message (which can
  raise, before anything is posted); run the loop. \<open>cooldown\<close> is \<^verbatim>\<open>_COOLDOWN_SECONDS\<close>,
  \<open>now\<close> the clock read at line 43.
\<close>

definition notify_sell ::
    "rat \<Rightarrow> rat \<Rightarrow> (int \<Rightarrow> response) \<Rightarrow> (int \<Rightarrow> rat) \<Rightarrow> (int \<Rightarrow> bool) \<Rightarrow> enriched \<Rightarrow>
       user_row list \<Rightarrow> push_event list \<times> user_row list \<times> py_error option" where
  "notify_sell now cooldown post clock write_ok trade db =
     (if db = [] then ([], db, None)
      else case message_usd trade of
        Inl e \<Rightarrow> ([], db, Some e)
      | Inr usd \<Rightarrow> notify_loop now cooldown post clock write_ok db db)"


section \<open>Push engine: periodic report\<close>

text \<open>
  \<^verbatim>\<open>src/bot/scheduler.py\<close>, \<^verbatim>\<open>_post_trade_report\<close>. Volumes are Python floats: every
  \<^verbatim>\<open>+=\<close> is a float addition, rounded. \<^verbatim>\<open>market_stats\<close> is a dict, here an association
  list in insertion order.
\<close>

record market_stat =
  buy_count :: nat
  sell_count :: nat
  buy_vol :: "rat option"
  sell_vol :: "rat option"

definition empty_stat :: market_stat where
  "empty_stat = \<lparr>buy_count = 0, sell_count = 0, buy_vol = Some 0, sell_vol = Some 0\<rparr>"

text \<open>\<^verbatim>\<open>mkt = trade.get("_market") or str(trade.get("market_id", "unknown"))\<close>\<close>

definition report_market :: "member \<Rightarrow> string" where
  "report_market m =
     (if u_market (m_trade m) \<noteq> [] then u_market (m_trade m)
      else case market_id (raw (m_trade m)) of None \<Rightarrow> ''unknown'' | Some k \<Rightarrow> k)"

text \<open>\<^verbatim>\<open>usd = float(trade.get("_usd") or trade.get("usd_amount") or 0)\<close>; \<^verbatim>\<open>inf\<close> and
  \<^verbatim>\<open>nan\<close> are truthy.\<close>

definition report_usd :: "member \<Rightarrow> py_error + rat option" where
  "report_usd m =
     (if u_usd (m_trade m) \<noteq> Some 0 then Inr (u_usd (m_trade m))
      else float_or_zero (usd_amount (raw (m_trade m))))"

text \<open>\<^verbatim>\<open>market_stats.setdefault(mkt, {...})\<close> followed by the update of that entry.\<close>

definition stat_of :: "(string \<times> market_stat) list \<Rightarrow> string \<Rightarrow> market_stat" where
  "stat_of stats mkt = (case map_of stats mkt of None \<Rightarrow> empty_stat | Some st \<Rightarrow> st)"

definition bump_stat :: "side \<Rightarrow> rat option \<Rightarrow> market_stat \<Rightarrow> market_stat" where
  "bump_stat sd usd st =
     (case sd of
        buy \<Rightarrow> st\<lparr>buy_count := buy_count st + 1, buy_vol := fadd (buy_vol st) usd\<rparr>
      | sell \<Rightarrow> st\<lparr>sell_count := sell_count st + 1, sell_vol := fadd (sell_vol st) usd\<rparr>
      | unknown \<Rightarrow> st)"

text \<open>The aggregation loop, lines 82-96; \<^verbatim>\<open>float(...)\<close> can raise and ends the job.\<close>

fun aggregate ::
    "member list \<Rightarrow> (string \<times> market_stat) list \<Rightarrow> rat option \<Rightarrow> rat option \<Rightarrow>
       py_error + ((string \<times> market_stat) list \<times> rat option \<times> rat option)" where
  "aggregate [] stats total_buy_volume total_sell_volume =
     Inr (stats, total_buy_volume, total_sell_volume)"
| "aggregate (m # ms) stats total_buy_volume total_sell_volume =
     (case report_usd m of
        Inl e \<Rightarrow> Inl e
      | Inr usd \<Rightarrow>
          aggregate ms
            (AList.update (report_market m)
               (bump_stat (u_side (m_trade m)) usd (stat_of stats (report_market m))) stats)
            (if u_side (m_trade m) = buy then fadd total_buy_volume usd else total_buy_volume)
            (if u_side (m_trade m) = sell then fadd total_sell_volume usd else total_sell_volume))"

text \<open>
  The message, by its content: the two totals and, when the section is written, the
  per-market lines in the order written. The numbers are the floats handed to the
  formatting; the clock in the title, the account, the window length and the rendering
  with two decimals are left out.
\<close>

record report =
  total_buy :: "rat option"
  total_sell :: "rat option"
  breakdown :: "(string \<times> market_stat) list option"

text \<open>
  \<^verbatim>\<open>_post_trade_report\<close>: no bot reference, a failed Redis read or an empty window send
  nothing; otherwise one \<^verbatim>\<open>send_message\<close> (a failure of it is logged). The per-market
  section is written \<^verbatim>\<open>if len(market_stats) > 1\<close>, from \<^verbatim>\<open>sorted(market_stats.items())\<close>:
  Python compares the keys, strings, by code point. \<open>fetched\<close> is what
  \<^verbatim>\<open>get_recent_trades\<close> returned, \<open>None\<close> when it raised.
\<close>

definition post_trade_report :: "bool \<Rightarrow> member list option \<Rightarrow> py_error + report option" where
  "post_trade_report bot_set fetched =
     (if \<not> bot_set then Inr None
      else case fetched of
        None \<Rightarrow> Inr None
      | Some trades \<Rightarrow>
          if trades = [] then Inr None
          else (case aggregate trades [] (Some 0) (Some 0) of
                  Inl e \<Rightarrow> Inl e
                | Inr (stats, tb, tsl) \<Rightarrow>
                    Inr (Some \<lparr>total_buy = tb, total_sell = tsl,
                               breakdown = (if length stats > 1
                                            then Some (sort_key fst stats) else None)\<rparr>)))"


section \<open>Scenario inputs\<close>

text \<open>A Sell of 500.00 USD on market 132 by the tracked account 714638, as the feed
  sends it (the amount a string, the timestamp in milliseconds), and the dict the
  normalizer makes of it when the message is handled at time \<open>now\<close>.\<close>

definition sell_500 :: raw_trade where
  "sell_500 = \<lparr>trade_id = Some 14879321842, market_id = Some ''132'',
                usd_amount = Some (JStr ''500.00'' (Reads (Some 500))),
                timestamp = Some (JInt 990000),
                bid_account_id = Some 54344, ask_account_id = Some 714638\<rparr>"

definition sell_500_at :: "rat \<Rightarrow> enriched" where
  "sell_500_at now = \<lparr>raw = sell_500, u_side = sell, u_ts = 990, u_usd = Some 500,
                 u_market = ''132'', u_account_id = ''714638'', u_received_at = now\<rparr>"

text \<open>A field that \<^verbatim>\<open>trade.get(key) or default\<close> replaces by the default: the key is
  absent or its value is falsy.\<close>

definition absent_or_falsy :: "json option \<Rightarrow> bool" where
  "absent_or_falsy v = (case v of None \<Rightarrow> True | Some x \<Rightarrow> \<not> truthy x)"

text \<open>A stored trade with the given id, market, side and amount (sent as a JSON number
  with a fraction part, so read as that float), for the scenarios.\<close>

definition window_trade :: "int \<Rightarrow> string \<Rightarrow> side \<Rightarrow> rat \<Rightarrow> member" where
  "window_trade i mk sd usd =
     member_of \<lparr>raw = \<lparr>trade_id = Some i, market_id = Some mk, usd_amount = Some (JFloat usd),
                        timestamp = Some (JInt 100000), bid_account_id = Some 54344,
                        ask_account_id = Some 714638\<rparr>,
                u_side = sd, u_ts = 100, u_usd = Some usd, u_market = mk,
                u_account_id = ''714638'', u_received_at = 100\<rparr>"


section \<open>Report contents, stated independently of the loop\<close>

text \<open>A stored trade whose amount the report can read: the \<^verbatim>\<open>float(...)\<close> at line 86 of
  \<^verbatim>\<open>scheduler.py\<close> returns the trade's \<^verbatim>\<open>_usd\<close>.\<close>

definition readable :: "member \<Rightarrow> bool" where
  "readable m = (report_usd m = Inr (u_usd (m_trade m)))"

text \<open>The amounts of the trades of one side, in window order, and their float sum taken
  from left to right, starting from the float \<open>acc\<close>.\<close>

definition side_amounts :: "side \<Rightarrow> member list \<Rightarrow> rat option list" where
  "side_amounts sd ms = map (\<lambda>m. u_usd (m_trade m)) (filter (\<lambda>m. u_side (m_trade m) = sd) ms)"

definition side_volume :: "side \<Rightarrow> member list \<Rightarrow> rat option" where
  "side_volume sd ms = foldl fadd (Some 0) (side_amounts sd ms)"

text \<open>The trades of the window on one market, and the counts and volumes of those.\<close>

definition on_market :: "string \<Rightarrow> member list \<Rightarrow> member list" where
  "on_market k ms = filter (\<lambda>m. report_market m = k) ms"

definition market_line :: "member list \<Rightarrow> string \<Rightarrow> market_stat" where
  "market_line ms k =
     \<lparr>buy_count = length (side_amounts buy (on_market k ms)),
      sell_count = length (side_amounts sell (on_market k ms)),
      buy_vol = side_volume buy (on_market k ms),
      sell_vol = side_volume sell (on_market k ms)\<rparr>"

text \<open>A statistic carried on over further trades.\<close>

definition extend_stat :: "market_stat \<Rightarrow> member list \<Rightarrow> market_stat" where
  "extend_stat st ms =
     \<lparr>buy_count = buy_count st + length (side_amounts buy ms),
      sell_count = sell_count st + length (side_amounts sell ms),
      buy_vol = foldl fadd (buy_vol st) (side_amounts buy ms),
      sell_vol = foldl fadd (sell_vol st) (side_amounts sell ms)\<rparr>"






section \<open>Normalizer: the values it raises on\<close>

text \<open>
  The exception, if any, that a truthy value of the field \<^verbatim>\<open>timestamp\<close> provokes in
  \<^verbatim>\<open>ts_ms / 1000.0\<close>, and a truthy value of the field \<^verbatim>\<open>usd_amount\<close> in
  \<^verbatim>\<open>float(...)\<close>, stated value by value: a non-empty string, list or object as
  timestamp is a \<^verbatim>\<open>TypeError\<close>; a non-empty list or object as amount is a
  \<^verbatim>\<open>TypeError\<close> and a non-empty string that \<^verbatim>\<open>float()\<close> rejects a \<^verbatim>\<open>ValueError\<close>; an
  integer too large for a float is an \<^verbatim>\<open>OverflowError\<close> in both. \<open>field_error\<close> lifts
  this to a field that can be absent.
\<close>

fun malformed_timestamp :: "json \<Rightarrow> py_error option" where
  "malformed_timestamp JNull = None"
| "malformed_timestamp (JBool b) = None"
| "malformed_timestamp (JInt i) = (if to_double (of_int i) = None then Some OverflowError else None)"
| "malformed_timestamp (JFloat r) = None"
| "malformed_timestamp (JStr s rd) = (if s = [] then None else Some TypeError)"
| "malformed_timestamp (JArr xs) = (if xs = [] then None else Some TypeError)"
| "malformed_timestamp (JObj kvs) = (if kvs = [] then None else Some TypeError)"

fun malformed_amount :: "json \<Rightarrow> py_error option" where
  "malformed_amount JNull = None"
| "malformed_amount (JBool b) = None"
| "malformed_amount (JInt i) = (if to_double (of_int i) = None then Some OverflowError else None)"
| "malformed_amount (JFloat r) = None"
| "malformed_amount (JStr s rd) = (if s \<noteq> [] \<and> rd = Rejected then Some ValueError else None)"
| "malformed_amount (JArr xs) = (if xs = [] then None else Some TypeError)"
| "malformed_amount (JObj kvs) = (if kvs = [] then None else Some TypeError)"

definition field_error :: "(json \<Rightarrow> py_error option) \<Rightarrow> json option \<Rightarrow> py_error option" where
  "field_error malformed v = (case v of None \<Rightarrow> None | Some x \<Rightarrow> malformed x)"


section \<open>Re-registration\<close>

lemma get_user_upsert_same:
  "get_user uid (upsert_user uid k rows) =
     Some (case get_user uid rows of
             None \<Rightarrow> \<lparr>user_id = uid, pushover_key = k, last_notification_at = None\<rparr>
           | Some r \<Rightarrow> r\<lparr>pushover_key := k\<rparr>)"
  by (induction rows) (simp_all add: get_user_def)

lemma get_user_upsert_other:
  "uid' \<noteq> uid \<Longrightarrow> get_user uid' (upsert_user uid k rows) = get_user uid' rows"
  by (induction rows) (simp_all add: get_user_def)

lemma get_subscription_upsert_same:
  "get_subscription uid (upsert_subscription uid k rows) =
     Some (case get_subscription uid rows of
             None \<Rightarrow> \<lparr>sub_user_id = uid, pushover_user_key = k, sub_last_notification_at = None\<rparr>
           | Some r \<Rightarrow> r\<lparr>pushover_user_key := k\<rparr>)"
  by (induction rows) (simp_all add: get_subscription_def)

lemma get_subscription_upsert_other:
  "uid' \<noteq> uid \<Longrightarrow>
     get_subscription uid' (upsert_subscription uid k rows) = get_subscription uid' rows"
  by (induction rows) (simp_all add: get_subscription_def)

lemma upsert_user_ids:
  "set (map user_id (upsert_user uid k rows)) = insert uid (set (map user_id rows))"
  by (induction rows) auto

lemma upsert_user_distinct:
  "distinct (map user_id rows) \<Longrightarrow> distinct (map user_id (upsert_user uid k rows))"
proof (induction rows)
  case Nil
  show ?case by simp
next
  case (Cons r rs)
  have ids: "set (map user_id (upsert_user uid k rs)) = insert uid (set (map user_id rs))"
    by (rule upsert_user_ids)
  from Cons show ?case
    using ids by auto
qed

lemma upsert_subscription_ids:
  "set (map sub_user_id (upsert_subscription uid k rows)) =
     insert uid (set (map sub_user_id rows))"
  by (induction rows) auto

lemma upsert_subscription_distinct:
  "distinct (map sub_user_id rows) \<Longrightarrow>
     distinct (map sub_user_id (upsert_subscription uid k rows))"
proof (induction rows)
  case Nil
  show ?case by simp
next
  case (Cons r rs)
  have ids: "set (map sub_user_id (upsert_subscription uid k rs)) =
               insert uid (set (map sub_user_id rs))"
    by (rule upsert_subscription_ids)
  from Cons show ?case
    using ids by auto
qed

text \<open>
  \<^bold>\<open>C10\<close>. Re-registration preserves the cooldown state, in both engines. If the user
  id already has a row \<open>r\<close>, the row stored after the upsert is \<open>r\<close> with only its push key
  replaced, so \<open>last_notification_at\<close> is the one stored before; if the user id had no row,
  the upsert creates one whose \<open>last_notification_at\<close> is \<open>NULL\<close>. Rows of other users are
  not touched, and the primary key stays unique.
\<close>

theorem upsert_keeps_last_notification:
  "(get_user uid us = Some r \<longrightarrow>
      get_user uid (upsert_user uid k us) = Some (r\<lparr>pushover_key := k\<rparr>) \<and>
      last_notification_at (r\<lparr>pushover_key := k\<rparr>) = last_notification_at r \<and>
      user_id (r\<lparr>pushover_key := k\<rparr>) = user_id r)
   \<and> (get_user uid us = None \<longrightarrow>
      get_user uid (upsert_user uid k us) =
        Some \<lparr>user_id = uid, pushover_key = k, last_notification_at = None\<rparr>)
   \<and> (uid' \<noteq> uid \<longrightarrow> get_user uid' (upsert_user uid k us) = get_user uid' us)
   \<and> (distinct (map user_id us) \<longrightarrow> distinct (map user_id (upsert_user uid k us)))
   \<and> (get_subscription uid ss = Some s \<longrightarrow>
      get_subscription uid (upsert_subscription uid k ss) = Some (s\<lparr>pushover_user_key := k\<rparr>) \<and>
      sub_last_notification_at (s\<lparr>pushover_user_key := k\<rparr>) = sub_last_notification_at s \<and>
      sub_user_id (s\<lparr>pushover_user_key := k\<rparr>) = sub_user_id s)
   \<and> (get_subscription uid ss = None \<longrightarrow>
      get_subscription uid (upsert_subscription uid k ss) =
        Some \<lparr>sub_user_id = uid, pushover_user_key = k, sub_last_notification_at = None\<rparr>)
   \<and> (uid' \<noteq> uid \<longrightarrow>
      get_subscription uid' (upsert_subscription uid k ss) = get_subscription uid' ss)
   \<and> (distinct (map sub_user_id ss) \<longrightarrow>
      distinct (map sub_user_id (upsert_subscription uid k ss)))"
  by (simp add: get_user_upsert_same get_user_upsert_other upsert_user_distinct
      get_subscription_upsert_same get_subscription_upsert_other upsert_subscription_distinct)

theorem upsert_keeps_last_notification_witness:
  "get_user 7 [\<lparr>user_id = 7, pushover_key = ''old-key-01'', last_notification_at = Some 1000\<rparr>] =
     Some \<lparr>user_id = 7, pushover_key = ''old-key-01'', last_notification_at = Some 1000\<rparr>
   \<and> get_user 7 (upsert_user 7 ''new-key-02''
        [\<lparr>user_id = 7, pushover_key = ''old-key-01'', last_notification_at = Some 1000\<rparr>]) =
     Some \<lparr>user_id = 7, pushover_key = ''new-key-02'', last_notification_at = Some 1000\<rparr>
   \<and> get_user 8 [\<lparr>user_id = 7, pushover_key = ''old-key-01'', last_notification_at = Some 1000\<rparr>] = None
   \<and> get_user 8 (upsert_user 8 ''new-key-02''
        [\<lparr>user_id = 7, pushover_key = ''old-key-01'', last_notification_at = Some 1000\<rparr>]) =
     Some \<lparr>user_id = 8, pushover_key = ''new-key-02'', last_notification_at = None\<rparr>
   \<and> get_user 7 (upsert_user 8 ''new-key-02''
        [\<lparr>user_id = 7, pushover_key = ''old-key-01'', last_notification_at = Some 1000\<rparr>]) =
     Some \<lparr>user_id = 7, pushover_key = ''old-key-01'', last_notification_at = Some 1000\<rparr>
   \<and> get_subscription 7
        [\<lparr>sub_user_id = 7, pushover_user_key = ''old-key-01'', sub_last_notification_at = Some 1000\<rparr>] =
     Some \<lparr>sub_user_id = 7, pushover_user_key = ''old-key-01'', sub_last_notification_at = Some 1000\<rparr>
   \<and> get_subscription 7 (upsert_subscription 7 ''new-key-02''
        [\<lparr>sub_user_id = 7, pushover_user_key = ''old-key-01'', sub_last_notification_at = Some 1000\<rparr>]) =
     Some \<lparr>sub_user_id = 7, pushover_user_key = ''new-key-02'', sub_last_notification_at = Some 1000\<rparr>
   \<and> get_subscription 8
        [\<lparr>sub_user_id = 7, pushover_user_key = ''old-key-01'', sub_last_notification_at = Some 1000\<rparr>] = None
   \<and> get_subscription 8 (upsert_subscription 8 ''new-key-02''
        [\<lparr>sub_user_id = 7, pushover_user_key = ''old-key-01'', sub_last_notification_at = Some 1000\<rparr>]) =
     Some \<lparr>sub_user_id = 8, pushover_user_key = ''new-key-02'', sub_last_notification_at = None\<rparr>
   \<and> distinct (map user_id (upsert_user 8 ''new-key-02''
        [\<lparr>user_id = 7, pushover_key = ''old-key-01'', last_notification_at = Some 1000\<rparr>]))
   \<and> distinct (map sub_user_id (upsert_subscription 8 ''new-key-02''
        [\<lparr>sub_user_id = 7, pushover_user_key = ''old-key-01'', sub_last_notification_at = Some 1000\<rparr>]))"
  using
    upsert_keeps_last_notification
      [of 7 "[\<lparr>user_id = 7, pushover_key = ''old-key-01'', last_notification_at = Some 1000\<rparr>]"
          "\<lparr>user_id = 7, pushover_key = ''old-key-01'', last_notification_at = Some 1000\<rparr>"
          "''new-key-02''" 8
          "[\<lparr>sub_user_id = 7, pushover_user_key = ''old-key-01'', sub_last_notification_at = Some 1000\<rparr>]"
          "\<lparr>sub_user_id = 7, pushover_user_key = ''old-key-01'', sub_last_notification_at = Some 1000\<rparr>"]
    upsert_keeps_last_notification
      [of 8 "[\<lparr>user_id = 7, pushover_key = ''old-key-01'', last_notification_at = Some 1000\<rparr>]"
          "\<lparr>user_id = 7, pushover_key = ''old-key-01'', last_notification_at = Some 1000\<rparr>"
          "''new-key-02''" 7
          "[\<lparr>sub_user_id = 7, pushover_user_key = ''old-key-01'', sub_last_notification_at = Some 1000\<rparr>]"
          "\<lparr>sub_user_id = 7, pushover_user_key = ''old-key-01'', sub_last_notification_at = Some 1000\<rparr>"]
  by (simp add: get_user_def get_subscription_def)


section \<open>Poll engine: admission and idempotent ingestion\<close>

lemma admit_mset: "mset (admit w trades) = filter_mset (is_fresh w) (mset trades)"
  by (simp add: admit_def)

lemma admit_sorted: "sorted (map ts (admit w trades))"
  by (simp add: admit_def sorted_filter)

lemma admit_stable:
  "filter (\<lambda>t. ts t = k) (admit w trades) = filter (\<lambda>t. ts t = k) (filter (is_fresh w) trades)"
proof -
  have "filter (\<lambda>t. ts t = k) (admit w trades) =
        filter (is_fresh w) (filter (\<lambda>t. ts t = k) (sort_key ts trades))"
    by (simp add: admit_def conj_commute)
  also have "\<dots> = filter (is_fresh w) (filter (\<lambda>t. ts t = k) trades)"
    by (simp only: sort_key_stable)
  also have "\<dots> = filter (\<lambda>t. ts t = k) (filter (is_fresh w) trades)"
    by (simp add: conj_commute)
  finally show ?thesis .
qed

text \<open>
  \<^bold>\<open>C2\<close>, as the code has it. For every batch and every watermark, the admitted list
  holds exactly the trades of the batch that are newer than the watermark (all of them
  when the watermark is unset), each as often as the batch holds it; it is sorted
  ascending by timestamp; and the trades that share a timestamp \<open>k\<close> appear in the order
  in which the batch lists them. No secondary key is consulted: a \<^typ>\<open>trade\<close> has no
  identifier.
\<close>

theorem admit_contract:
  "mset (admit w trades) = filter_mset (is_fresh w) (mset trades)
   \<and> sorted (map ts (admit w trades))
   \<and> filter (\<lambda>t. ts t = k) (admit w trades) = filter (\<lambda>t. ts t = k) (filter (is_fresh w) trades)"
  by (simp only: admit_mset admit_sorted admit_stable simp_thms)

text \<open>
  \<^bold>\<open>C2\<close>, as stated, fails where it says that colliding timestamps are ordered by a
  stable secondary key. The same two trades, both at timestamp 100, are admitted in
  either order, whichever the batch had: the order of a tie is the batch's, not that of
  a key of the trades.
\<close>

theorem admit_tie_order_counterexample:
  "admit None [\<lparr>ts = 100, direction = Sell, usd_size = 500\<rparr>, \<lparr>ts = 100, direction = Buy, usd_size = 20\<rparr>]
     = [\<lparr>ts = 100, direction = Sell, usd_size = 500\<rparr>, \<lparr>ts = 100, direction = Buy, usd_size = 20\<rparr>]
   \<and> admit None [\<lparr>ts = 100, direction = Buy, usd_size = 20\<rparr>, \<lparr>ts = 100, direction = Sell, usd_size = 500\<rparr>]
     = [\<lparr>ts = 100, direction = Buy, usd_size = 20\<rparr>, \<lparr>ts = 100, direction = Sell, usd_size = 500\<rparr>]"
  by (simp add: admit_def is_fresh_def)



















section \<open>Floats\<close>

lemma floor_rat_numeral_div [simp]:
  "\<lfloor>(numeral a :: rat) / numeral b\<rfloor> = numeral a div numeral b"
  by (metis floor_divide_of_int_eq of_int_numeral)

lemma ceiling_rat_numeral_div [simp]:
  "\<lceil>(numeral a :: rat) / numeral b\<rceil> = - (- numeral a div numeral b)"
  by (metis ceiling_divide_eq_div of_int_numeral)

lemma round_half_even_of_int [simp]: "round_half_even (of_int n) = n"
  by (simp add: round_half_even_def)

lemma binary_exponent_of_int:
  assumes "n \<noteq> 0"
  shows "binary_exponent (of_int n) = bitlen \<bar>n\<bar> - 1"
proof -
  have "1 \<le> \<bar>n\<bar>" using assms by simp
  then have "(1::rat) \<le> \<bar>of_int n\<bar>" by (metis of_int_1 of_int_abs of_int_le_iff)
  moreover have "\<lfloor>\<bar>of_int n :: rat\<bar>\<rfloor> = \<bar>n\<bar>" by (metis floor_of_int of_int_abs)
  ultimately show ?thesis by (simp add: binary_exponent_def)
qed

lemma fl_of_int:
  assumes "\<bar>n\<bar> < 2 ^ 53"
  shows "fl (of_int n) = of_int n"
proof (cases "n = 0")
  case True
  then show ?thesis by (simp add: fl_def)
next
  case False
  define b where "b = bitlen \<bar>n\<bar>"
  have pos: "0 < \<bar>n\<bar>" using False by simp
  have b1: "1 \<le> b" using pos unfolding b_def by (metis bitlen_eq_zero_iff bitlen_nonneg int_one_le_iff_zero_less le_less not_less)
  have b53: "b \<le> 53" unfolding b_def using assms by (simp add: bitlen_le_iff_power)
  let ?e = "max (b - 1) (- 1022) - 52"
  have e: "?e = b - 53" using b1 by simp
  obtain k where k: "53 - b = int k" using b53 by (metis diff_ge_0_iff_ge nonneg_int_cases)
  have pw: "(2::rat) powi (b - 53) = 1 / 2 ^ k"
  proof -
    have "b - 53 = - int k" using k by simp
    then show ?thesis by (simp add: power_int_minus divide_inverse)
  qed
  have m: "of_int n / (2::rat) powi (b - 53) = of_int (n * 2 ^ k)" by (simp add: pw)
  have "fl (of_int n) = of_int (round_half_even (of_int n / 2 powi (b - 53))) * 2 powi (b - 53)"
    using False e by (simp add: fl_def binary_exponent_of_int b_def Let_def)
  also have "\<dots> = of_int (n * 2 ^ k) * 2 powi (b - 53)"
    by (simp only: m round_half_even_of_int)
  also have "\<dots> = of_int (n * 2 ^ k) * (1 / 2 ^ k)"
    by (simp only: pw)
  also have "\<dots> = of_int n" by simp
  finally show ?thesis .
qed

lemma to_double_of_int:
  assumes "\<bar>n\<bar> < 2 ^ 53"
  shows "to_double (of_int n) = Some (of_int n)"
proof -
  have "\<bar>n\<bar> < 2 ^ 1024" using assms by (rule less_trans) simp
  then have "\<bar>of_int n :: rat\<bar> < 2 ^ 1024"
    by (metis of_int_abs of_int_less_iff of_int_numeral of_int_power)
  then show ?thesis by (simp add: to_double_def fl_of_int[OF assms])
qed

lemma to_double_numeral [simp]:
  "(numeral k :: int) < 2 ^ 53 \<Longrightarrow> to_double (numeral k) = Some (numeral k)"
  using to_double_of_int[of "numeral k"] by simp

lemma fl_numeral [simp]:
  "(numeral k :: int) < 2 ^ 53 \<Longrightarrow> fl (numeral k) = numeral k"
  using fl_of_int[of "numeral k"] by simp

lemma fl_0 [simp]: "fl 0 = 0"
  by (simp add: fl_def)

lemma to_double_0 [simp]: "to_double 0 = Some 0"
  by (simp add: to_double_def)

lemma to_double_1 [simp]: "to_double 1 = Some 1"
  using to_double_of_int[of 1] by simp

lemma bitlen_big: "bitlen 10000000000000001 = 54" by code_simp

lemma fl_big: "fl 10000000000000001 = 10000000000000000"
  by (simp add: fl_def binary_exponent_def bitlen_big round_half_even_def)

lemma to_double_big: "to_double (10000000000000000 + 1) = Some 10000000000000000"
  by (simp add: to_double_def fl_big)


lemma powi_nat: "0 \<le> k \<Longrightarrow> (2::rat) powi k = 2 ^ nat k"
  by (simp add: power_int_def)

lemma powi_neg: "0 \<le> k \<Longrightarrow> (2::rat) powi (- k) = 1 / 2 ^ nat k"
  by (simp add: power_int_minus powi_nat divide_inverse)

lemma bitlen_pos: "0 < n \<Longrightarrow> 1 \<le> bitlen n"
  by (metis bitlen_eq_zero_iff bitlen_nonneg int_one_le_iff_zero_less le_less not_less)

lemma binary_exponent_bounds:
  assumes "x \<noteq> 0"
  shows "2 powi binary_exponent x \<le> \<bar>x\<bar>" and "\<bar>x\<bar> < 2 powi (binary_exponent x + 1)"
proof -
  have "2 powi binary_exponent x \<le> \<bar>x\<bar> \<and> \<bar>x\<bar> < 2 powi (binary_exponent x + 1)"
  proof (cases "1 \<le> \<bar>x\<bar>")
    case True
    define N where "N = \<lfloor>\<bar>x\<bar>\<rfloor>"
    define b where "b = bitlen N"
    have N1: "1 \<le> N" using True unfolding N_def by simp
    then have b1: "1 \<le> b" unfolding b_def by (intro bitlen_pos) simp
    have bnd: "2 ^ nat (b - 1) \<le> N" "N < 2 ^ nat b"
      using bitlen_bounds[of N] N1 unfolding b_def by simp_all
    have ex: "binary_exponent x = b - 1" using True by (simp add: binary_exponent_def N_def b_def)
    have "(2::rat) ^ nat (b - 1) \<le> of_int N"
      using bnd(1) by (metis of_int_le_iff of_int_numeral of_int_power)
    also have "\<dots> \<le> \<bar>x\<bar>" unfolding N_def by simp
    finally have lo: "(2::rat) powi (b - 1) \<le> \<bar>x\<bar>" using b1 by (simp add: powi_nat)
    have "N + 1 \<le> 2 ^ nat b" using bnd(2) by simp
    then have "(of_int (N + 1) :: rat) \<le> 2 ^ nat b"
      by (metis of_int_le_iff of_int_numeral of_int_power)
    moreover have "\<bar>x\<bar> < of_int (N + 1)" unfolding N_def by linarith
    ultimately have "\<bar>x\<bar> < 2 ^ nat b" by linarith
    then have hi: "\<bar>x\<bar> < 2 powi (b - 1 + 1)" using b1 by (simp add: powi_nat)
    show ?thesis using lo hi ex by simp
  next
    case False
    define y where "y = 1 / \<bar>x\<bar>"
    define M where "M = \<lceil>y\<rceil>"
    define c where "c = bitlen (M - 1)"
    have xpos: "0 < \<bar>x\<bar>" using assms by simp
    have y1: "1 < y" using False xpos unfolding y_def by (simp add: field_simps)
    have M2: "2 \<le> M" using y1 unfolding M_def by linarith
    then have c1: "1 \<le> c" unfolding c_def by (intro bitlen_pos) simp
    have bnd: "2 ^ nat (c - 1) \<le> M - 1" "M - 1 < 2 ^ nat c"
      using bitlen_bounds[of "M - 1"] M2 unfolding c_def by simp_all
    have ex: "binary_exponent x = - c"
      using False by (simp add: binary_exponent_def y_def M_def c_def)
    have "M \<le> 2 ^ nat c" using bnd(2) by simp
    then have "(of_int M :: rat) \<le> 2 ^ nat c"
      by (metis of_int_le_iff of_int_numeral of_int_power)
    moreover have "y \<le> of_int M" unfolding M_def by simp
    ultimately have "y \<le> 2 ^ nat c" by linarith
    then have "1 / 2 ^ nat c \<le> \<bar>x\<bar>"
      using xpos unfolding y_def by (simp add: field_simps)
    then have lo: "(2::rat) powi (- c) \<le> \<bar>x\<bar>" using c1 by (simp add: powi_neg)
    have "(2::rat) ^ nat (c - 1) \<le> of_int (M - 1)"
      using bnd(1) by (metis of_int_le_iff of_int_numeral of_int_power)
    moreover have "of_int (M - 1) < y" unfolding M_def by linarith
    ultimately have "(2::rat) ^ nat (c - 1) < y" by linarith
    then have "\<bar>x\<bar> < 1 / 2 ^ nat (c - 1)"
      using xpos unfolding y_def by (simp add: field_simps)
    moreover have "(2::rat) powi (- c + 1) = 1 / 2 ^ nat (c - 1)"
      using powi_neg[of "c - 1"] c1 by simp
    ultimately have hi: "\<bar>x\<bar> < 2 powi (- c + 1)" by simp
    show ?thesis using lo hi ex by simp
  qed
  then show "2 powi binary_exponent x \<le> \<bar>x\<bar>" and "\<bar>x\<bar> < 2 powi (binary_exponent x + 1)"
    by simp_all
qed


section \<open>Recent-trade window\<close>

lemma zadd_Cons: "zadd ((m, s) # mapping) z = zadd mapping (AList.update m s z)"
  by (simp add: zadd_def)

lemma zadd_Nil: "zadd [] z = z"
  by (simp add: zadd_def)

lemma zadd_distinct: "distinct (map fst z) \<Longrightarrow> distinct (map fst (zadd mapping z))"
proof (induction mapping arbitrary: z)
  case Nil
  then show ?case by (simp add: zadd_Nil)
next
  case (Cons p mapping)
  obtain m s where p: "p = (m, s)" by (cases p)
  show ?case unfolding p zadd_Cons
    by (rule Cons.IH) (rule distinct_update[OF Cons.prems])
qed

lemma zadd_same_scores:
  "(\<And>m s. (m, s) \<in> set mapping \<Longrightarrow> map_of z m = Some s) \<Longrightarrow> zadd mapping z = z"
proof (induction mapping)
  case Nil
  show ?case by (simp add: zadd_Nil)
next
  case (Cons p mapping)
  obtain m s where p: "p = (m, s)" by (cases p)
  have "map_of z m = Some s" using Cons.prems[of m s] p by simp
  then have "AList.update m s z = z" by (rule update_triv)
  moreover have "zadd mapping z = z" using Cons.IH Cons.prems by simp
  ultimately show ?case unfolding p zadd_Cons by simp
qed

lemma zadd_other: "m \<notin> fst ` set mapping \<Longrightarrow> map_of (zadd mapping z) m = map_of z m"
proof (induction mapping arbitrary: z)
  case Nil
  show ?case by (simp add: zadd_Nil)
next
  case (Cons p mapping)
  obtain m' s' where p: "p = (m', s')" by (cases p)
  from Cons.prems p have ne: "m \<noteq> m'" and notin: "m \<notin> fst ` set mapping" by auto
  show ?case unfolding p zadd_Cons
    using Cons.IH[OF notin] ne by (simp add: update_conv')
qed

lemma zadd_lookup:
  "distinct (map fst mapping) \<Longrightarrow> (m, s) \<in> set mapping \<Longrightarrow> map_of (zadd mapping z) m = Some s"
proof (induction mapping arbitrary: z)
  case Nil
  then show ?case by simp
next
  case (Cons p mapping)
  obtain m' s' where p: "p = (m', s')" by (cases p)
  from Cons.prems(1) p have d: "distinct (map fst mapping)" and notin: "m' \<notin> fst ` set mapping"
    by auto
  show ?case
  proof (cases "(m, s) = (m', s')")
    case True
    then show ?thesis unfolding p zadd_Cons
      using zadd_other[OF notin] by (simp add: update_conv')
  next
    case False
    with Cons.prems(2) p have "(m, s) \<in> set mapping" by auto
    then show ?thesis unfolding p zadd_Cons using Cons.IH[OF d] by simp
  qed
qed

lemma zadd_idem:
  assumes "distinct (map fst mapping)"
  shows "zadd mapping (zadd mapping z) = zadd mapping z"
  by (rule zadd_same_scores) (rule zadd_lookup[OF assms])

lemma mapping_distinct:
  "distinct (map fst acc) \<Longrightarrow>
     distinct (map fst (fold (\<lambda>t mapping. AList.update (member_of t) (score_of now t) mapping) trades acc))"
proof (induction trades arbitrary: acc)
  case Nil
  then show ?case by simp
next
  case (Cons t trades)
  show ?case
    using Cons.IH[OF distinct_update[OF Cons.prems, of "member_of t" "score_of now t"]] by simp
qed

lemma store_trades_idem:
  "store_trades now trades (store_trades now trades z) = store_trades now trades z"
proof (cases "trades = []")
  case True
  then show ?thesis by (simp add: store_trades_def)
next
  case False
  have "distinct (map fst (fold (\<lambda>t mapping. AList.update (member_of t) (score_of now t) mapping) trades []))"
    by (rule mapping_distinct) simp
  then show ?thesis using False by (simp add: store_trades_def zadd_idem)
qed

lemma store_trades_distinct:
  "distinct (map fst z) \<Longrightarrow> distinct (map fst (store_trades now trades z))"
  by (simp add: store_trades_def zadd_distinct)

lemma get_recent_trades_distinct:
  assumes "distinct (map fst z)"
  shows "distinct (get_recent_trades now w z)"
proof -
  have "distinct (map fst (filter P z))" for P
    using assms by (rule distinct_map_filter)
  then have "distinct (map fst (sort_key snd (filter P z)))" for P
    by (metis distinct_map distinct_sort set_sort)
  then show ?thesis by (simp add: get_recent_trades_def zrangebyscore_from_def)
qed

lemma purge_old_trades_result:
  "purge_old_trades now z =
     (filter (\<lambda>(m, s). now - TRADE_RETENTION_SECONDS < s) z,
      length (filter (\<lambda>(m, s). s \<le> now - TRADE_RETENTION_SECONDS) z))"
proof -
  have "(\<lambda>(m, s). \<not> s \<le> now - TRADE_RETENTION_SECONDS) =
        (\<lambda>(m :: member, s). now - TRADE_RETENTION_SECONDS < s)"
    by (auto simp: fun_eq_iff)
  then show ?thesis by (simp add: purge_old_trades_def zremrangebyscore_upto_def)
qed

lemma purge_count:
  "snd (purge_old_trades now z) = length z - length (fst (purge_old_trades now z))"
proof -
  have "length z = length (filter (\<lambda>p. snd p \<le> now - TRADE_RETENTION_SECONDS) z) +
        length (filter (\<lambda>p. \<not> snd p \<le> now - TRADE_RETENTION_SECONDS) z)"
    by (rule sum_length_filter_compl[symmetric])
  then show ?thesis
    by (simp add: purge_old_trades_def zremrangebyscore_upto_def split_def)
qed

lemma get_recent_trades_mem:
  "m \<in> set (get_recent_trades now w z) \<longleftrightarrow>
     (\<exists>s. (m, s) \<in> set z \<and> now - (case w of None \<Rightarrow> TRADE_RETENTION_SECONDS | Some x \<Rightarrow> x) \<le> s)"
  by (force simp: get_recent_trades_def zrangebyscore_from_def)

lemma purge_retains:
  "(m, t) \<in> set z \<Longrightarrow> now - TRADE_RETENTION_SECONDS < t \<Longrightarrow>
     (m, t) \<in> set (fst (purge_old_trades now z))"
  by (simp add: purge_old_trades_result)

lemma purge_removes:
  "distinct (map fst z) \<Longrightarrow> (m, t) \<in> set z \<Longrightarrow> t \<le> now - TRADE_RETENTION_SECONDS \<Longrightarrow>
     m \<notin> set (get_recent_trades now' w (fst (purge_old_trades now z)))"
proof -
  assume d: "distinct (map fst z)" and mem: "(m, t) \<in> set z" and old: "t \<le> now - TRADE_RETENTION_SECONDS"
  have "s = t" if "(m, s) \<in> set z" for s
    using d mem that by (meson eq_key_imp_eq_value)
  then have "\<not> (\<exists>s. (m, s) \<in> set (fst (purge_old_trades now z)))"
    using old by (auto simp: purge_old_trades_result)
  then show ?thesis by (simp add: get_recent_trades_mem)
qed



lemma enrich_sell_500: "enrich ''714638'' 714638 now ''132'' sell_500 = Inr (sell_500_at now)"
  by (simp add: enrich_def sell_500_def sell_500_at_def ts_seconds_def float_or_zero_def
      resolve_side_def)

lemma enrich_all_sell_500:
  "enrich_all ''714638'' 714638 now [(''132'', [sell_500])] = Inr [sell_500_at now]"
  by (simp add: enrich_sell_500)

lemma store_sell_500:
  "store_trades now' [sell_500_at now] z = AList.update (member_of (sell_500_at now)) 990 z"
  by (simp add: store_trades_def zadd_def score_of_def sell_500_at_def)

lemma handle_sell_500:
  "handle_trade_update ''714638'' 714638 now ns np [(''132'', [sell_500])] z =
     Inr (fst (purge_old_trades np (AList.update (member_of (sell_500_at now)) 990 z)),
          [sell_500_at now])"
proof -
  have sd: "u_side (sell_500_at now) = sell" by (simp add: sell_500_at_def)
  show ?thesis
    unfolding handle_trade_update_def enrich_all_sell_500
    by (simp add: store_sell_500 sd)
qed

lemma members_differ: "member_of (sell_500_at 1000) \<noteq> member_of (sell_500_at 1001)"
  by (simp add: member_of_def sell_500_at_def)

lemma receive_sell_500_first:
  "receive_trade_update ''714638'' 714638 1000 1000 1000 [(''132'', [sell_500])] [] =
     ([(member_of (sell_500_at 1000), 990)], [sell_500_at 1000])"
  unfolding receive_trade_update_def handle_sell_500
  by (simp add: purge_old_trades_def zremrangebyscore_upto_def TRADE_RETENTION_SECONDS_def)

lemma receive_sell_500_second:
  "receive_trade_update ''714638'' 714638 1001 1001 1001 [(''132'', [sell_500])]
     [(member_of (sell_500_at 1000), 990)] =
     ([(member_of (sell_500_at 1000), 990), (member_of (sell_500_at 1001), 990)],
      [sell_500_at 1001])"
  unfolding receive_trade_update_def handle_sell_500
  using members_differ
  by (simp add: purge_old_trades_def zremrangebyscore_upto_def TRADE_RETENTION_SECONDS_def)

text \<open>
  \<^bold>\<open>C5\<close> fails across messages. The member stored for a trade is the whole enriched
  dict, and that holds \<^verbatim>\<open>_received_at\<close>, the time the message was handled. The same raw
  trade (same \<^verbatim>\<open>trade_id\<close>, same timestamp) arriving in a message handled at time 1000 and
  again in one handled at time 1001 gives two different members, and a read of the window
  returns both: two entries with the same timestamp and the same \<^verbatim>\<open>_member_id\<close>. Storing
  the same enriched dicts again is a no-op (\<open>store_trades_idem\<close>), and a read never
  returns one member twice (\<open>get_recent_trades_distinct\<close>).
\<close>

theorem same_trade_two_messages:
  "map (\<lambda>m. (trade_id (raw (m_trade m)), u_ts (m_trade m), m_member_id m, u_received_at (m_trade m)))
     (get_recent_trades 1002 (Some 300)
        (fst (receive_trade_update ''714638'' 714638 1001 1001 1001 [(''132'', [sell_500])]
           (fst (receive_trade_update ''714638'' 714638 1000 1000 1000 [(''132'', [sell_500])] [])))))
   = [(Some 14879321842, 990, Trade_id 14879321842, 1000),
      (Some 14879321842, 990, Trade_id 14879321842, 1001)]"
  unfolding receive_sell_500_first fst_conv receive_sell_500_second
  by (simp add: get_recent_trades_def zrangebyscore_from_def member_of_def sell_500_at_def
      sell_500_def)


section \<open>Normalizer\<close>

lemma ts_seconds_raises:
  "ts_seconds now v = Inl err \<longleftrightarrow> field_error malformed_timestamp v = Some err"
proof (cases v)
  case None
  then show ?thesis by (simp add: ts_seconds_def field_error_def)
next
  case (Some x)
  then show ?thesis
    by (cases x) (auto simp: ts_seconds_def field_error_def split: option.splits)
qed

lemma float_or_zero_raises:
  "float_or_zero v = Inl err \<longleftrightarrow> field_error malformed_amount v = Some err"
proof (cases v)
  case None
  then show ?thesis by (simp add: float_or_zero_def field_error_def)
next
  case (Some x)
  then show ?thesis
    by (cases x) (auto simp: float_or_zero_def field_error_def split: option.splits reading.splits)
qed

lemma ts_seconds_falsy: "absent_or_falsy v \<Longrightarrow> ts_seconds now v = Inr now"
  by (auto simp: absent_or_falsy_def ts_seconds_def split: option.splits)

lemma float_or_zero_falsy: "absent_or_falsy v \<Longrightarrow> float_or_zero v = Inr (Some 0)"
  by (auto simp: absent_or_falsy_def float_or_zero_def split: option.splits)

lemma enrich_raises:
  "enrich a ai now mk t = Inl err \<longleftrightarrow>
     field_error malformed_timestamp (timestamp t) = Some err \<or>
     field_error malformed_timestamp (timestamp t) = None \<and>
     field_error malformed_amount (usd_amount t) = Some err"
proof (cases "ts_seconds now (timestamp t)")
  case (Inl e)
  then have "field_error malformed_timestamp (timestamp t) = Some e"
    by (simp add: ts_seconds_raises)
  with Inl show ?thesis by (auto simp: enrich_def)
next
  case (Inr x)
  have "field_error malformed_timestamp (timestamp t) \<noteq> Some e" for e
    using Inr ts_seconds_raises[of now "timestamp t" e] by simp
  then have none: "field_error malformed_timestamp (timestamp t) = None"
    by (cases "field_error malformed_timestamp (timestamp t)") auto
  show ?thesis
    using Inr none float_or_zero_raises[of "usd_amount t" err]
    by (auto simp: enrich_def split: sum.splits)
qed

lemma enrich_fields:
  assumes "enrich a ai now mk t = Inr e"
  shows "raw e = t" and "u_received_at e = now" and "u_account_id e = a"
    and "u_side e = resolve_side t ai"
    and "ts_seconds now (timestamp t) = Inr (u_ts e)"
    and "float_or_zero (usd_amount t) = Inr (u_usd e)"
    and "u_market e = (case market_id t of None \<Rightarrow> mk | Some m \<Rightarrow> m)"
  using assms by (auto simp: enrich_def split: sum.splits)

lemma enrich_list_raises:
  "(\<exists>err. enrich_list a ai now mk trs = Inl err) \<longleftrightarrow>
     (\<exists>t err. t \<in> set trs \<and> enrich a ai now mk t = Inl err)"
proof (induction trs)
  case Nil
  show ?case by simp
next
  case (Cons t trs)
  show ?case
  proof (cases "enrich a ai now mk t")
    case (Inl e)
    then show ?thesis by auto
  next
    case (Inr x)
    then show ?thesis using Cons.IH by (auto split: sum.splits)
  qed
qed

lemma enrich_all_raises:
  "(\<exists>err. enrich_all a ai now tbm = Inl err) \<longleftrightarrow>
     (\<exists>mk trs t err. (mk, trs) \<in> set tbm \<and> t \<in> set trs \<and> enrich a ai now mk t = Inl err)"
proof (induction tbm)
  case Nil
  show ?case by simp
next
  case (Cons p tbm)
  obtain mk trs where p: "p = (mk, trs)" by (cases p)
  show ?case
  proof (cases "enrich_list a ai now mk trs")
    case (Inl e)
    then have "\<exists>t err. t \<in> set trs \<and> enrich a ai now mk t = Inl err"
      using enrich_list_raises[of a ai now mk trs] by auto
    with Inl p show ?thesis by auto
  next
    case (Inr xs)
    then have no: "\<not> (\<exists>t err. t \<in> set trs \<and> enrich a ai now mk t = Inl err)"
      using enrich_list_raises[of a ai now mk trs] by auto
    have "(\<exists>err. enrich_all a ai now (p # tbm) = Inl err) \<longleftrightarrow>
          (\<exists>err. enrich_all a ai now tbm = Inl err)"
      using Inr p by (auto split: sum.splits)
    also have "\<dots> \<longleftrightarrow>
       (\<exists>mk trs t err. (mk, trs) \<in> set tbm \<and> t \<in> set trs \<and> enrich a ai now mk t = Inl err)"
      by (rule Cons.IH)
    also have "\<dots> \<longleftrightarrow>
       (\<exists>mk trs t err. (mk, trs) \<in> set (p # tbm) \<and> t \<in> set trs \<and> enrich a ai now mk t = Inl err)"
      using no p by auto
    finally show ?thesis .
  qed
qed

lemma receive_dropped:
  "enrich_all a ai now tbm = Inl err \<Longrightarrow> receive_trade_update a ai now ns np tbm z = (z, [])"
  by (simp add: receive_trade_update_def handle_trade_update_def)


text \<open>
  \<^bold>\<open>C9\<close>, as the code has it. When the normalizer returns, the side is Buy if the bid
  account is the tracked account, otherwise Sell if the ask account is, otherwise
  Unknown; an absent or falsy \<^verbatim>\<open>usd_amount\<close> gives \<^verbatim>\<open>_usd\<close> 0 and an absent or falsy
  \<^verbatim>\<open>timestamp\<close> gives the receipt time, not 0. The normalizer is not total. It raises
  \<open>err\<close> exactly when the timestamp is malformed with that error, or the timestamp is
  sound and the amount is malformed with that error: a non-empty string, list or object
  as timestamp (\<^verbatim>\<open>TypeError\<close>), a non-empty amount string that \<^verbatim>\<open>float()\<close> rejects
  (\<^verbatim>\<open>ValueError\<close>), a non-empty list or object as amount (\<^verbatim>\<open>TypeError\<close>), an integer
  beyond the float range in either field (\<^verbatim>\<open>OverflowError\<close>). A message raises exactly
  when one of its trades does, and it is then left unprocessed as a whole: the window is
  as before and no sell is dispatched. JSON numbers that read as \<^verbatim>\<open>inf\<close> or \<^verbatim>\<open>nan\<close> are
  outside the values modelled.
\<close>

theorem normalizer_behaviour:
  "(enrich a ai now mk t = Inr e \<longrightarrow>
      u_side e = (if bid_account_id t = Some ai then buy
                  else if ask_account_id t = Some ai then sell else unknown)
      \<and> raw e = t
      \<and> (if absent_or_falsy (usd_amount t) then u_usd e = Some 0
          else float_or_zero (usd_amount t) = Inr (u_usd e))
      \<and> (if absent_or_falsy (timestamp t) then u_ts e = now
          else ts_seconds now (timestamp t) = Inr (u_ts e)))
   \<and> (enrich a ai now mk t = Inl err \<longleftrightarrow>
        field_error malformed_timestamp (timestamp t) = Some err \<or>
        field_error malformed_timestamp (timestamp t) = None \<and>
        field_error malformed_amount (usd_amount t) = Some err)
   \<and> ((\<exists>err. enrich_all a ai now tbm = Inl err) \<longleftrightarrow>
        (\<exists>mk trs t err. (mk, trs) \<in> set tbm \<and> t \<in> set trs \<and> enrich a ai now mk t = Inl err))
   \<and> (enrich_all a ai now tbm = Inl err' \<longrightarrow>
        receive_trade_update a ai now ns np tbm z = (z, []))"
proof (intro conjI impI)
  assume ok: "enrich a ai now mk t = Inr e"
  show "u_side e = (if bid_account_id t = Some ai then buy
                    else if ask_account_id t = Some ai then sell else unknown)"
    using enrich_fields(4)[OF ok] by (simp add: resolve_side_def)
  show "raw e = t" by (rule enrich_fields(1)[OF ok])
  show "if absent_or_falsy (usd_amount t) then u_usd e = Some 0
        else float_or_zero (usd_amount t) = Inr (u_usd e)"
    using enrich_fields(6)[OF ok] float_or_zero_falsy[of "usd_amount t"] by auto
  show "if absent_or_falsy (timestamp t) then u_ts e = now
        else ts_seconds now (timestamp t) = Inr (u_ts e)"
    using enrich_fields(5)[OF ok] ts_seconds_falsy[of "timestamp t" now] by auto
next
  show "enrich a ai now mk t = Inl err \<longleftrightarrow>
        field_error malformed_timestamp (timestamp t) = Some err \<or>
        field_error malformed_timestamp (timestamp t) = None \<and>
        field_error malformed_amount (usd_amount t) = Some err"
    by (rule enrich_raises)
next
  show "(\<exists>err. enrich_all a ai now tbm = Inl err) \<longleftrightarrow>
        (\<exists>mk trs t err. (mk, trs) \<in> set tbm \<and> t \<in> set trs \<and> enrich a ai now mk t = Inl err)"
    by (rule enrich_all_raises)
next
  assume "enrich_all a ai now tbm = Inl err'"
  then show "receive_trade_update a ai now ns np tbm z = (z, [])"
    by (rule receive_dropped)
qed

lemma enrich_bare:
  "enrich ''714638'' 714638 1000 ''132'' (sell_500\<lparr>usd_amount := None, timestamp := None\<rparr>) =
     Inr \<lparr>raw = sell_500\<lparr>usd_amount := None, timestamp := None\<rparr>, u_side = sell, u_ts = 1000,
          u_usd = Some 0, u_market = ''132'', u_account_id = ''714638'', u_received_at = 1000\<rparr>"
  by (simp add: enrich_def ts_seconds_def float_or_zero_def resolve_side_def sell_500_def)

lemma enrich_abc:
  "enrich ''714638'' 714638 1000 ''132'' (sell_500\<lparr>usd_amount := Some (JStr ''abc'' Rejected)\<rparr>) =
     Inl ValueError"
  by (simp add: enrich_def ts_seconds_def float_or_zero_def sell_500_def)

lemma enrich_all_abc:
  "enrich_all ''714638'' 714638 1000
     [(''132'', [sell_500, sell_500\<lparr>usd_amount := Some (JStr ''abc'' Rejected)\<rparr>])] = Inl ValueError"
  by (simp add: enrich_sell_500 enrich_abc)

theorem normalizer_behaviour_witness:
  "enrich ''714638'' 714638 1000 ''132'' (sell_500\<lparr>usd_amount := None, timestamp := None\<rparr>) =
     Inr \<lparr>raw = sell_500\<lparr>usd_amount := None, timestamp := None\<rparr>, u_side = sell, u_ts = 1000,
          u_usd = Some 0, u_market = ''132'', u_account_id = ''714638'', u_received_at = 1000\<rparr>
   \<and> absent_or_falsy (usd_amount (sell_500\<lparr>usd_amount := None, timestamp := None\<rparr>))
   \<and> absent_or_falsy (timestamp (sell_500\<lparr>usd_amount := None, timestamp := None\<rparr>))
   \<and> ask_account_id (sell_500\<lparr>usd_amount := None, timestamp := None\<rparr>) = Some 714638
   \<and> enrich_all ''714638'' 714638 1000
        [(''132'', [sell_500, sell_500\<lparr>usd_amount := Some (JStr ''abc'' Rejected)\<rparr>])] = Inl ValueError
   \<and> receive_trade_update ''714638'' 714638 1000 1000 1000
        [(''132'', [sell_500, sell_500\<lparr>usd_amount := Some (JStr ''abc'' Rejected)\<rparr>])] [] = ([], [])"
  using normalizer_behaviour
    [of "''714638''" 714638 1000 "''132''" "sell_500\<lparr>usd_amount := None, timestamp := None\<rparr>"
        "\<lparr>raw = sell_500\<lparr>usd_amount := None, timestamp := None\<rparr>, u_side = sell, u_ts = 1000,
          u_usd = Some 0, u_market = ''132'', u_account_id = ''714638'', u_received_at = 1000\<rparr>"
        ValueError
        "[(''132'', [sell_500, sell_500\<lparr>usd_amount := Some (JStr ''abc'' Rejected)\<rparr>])]"
        ValueError 1000 1000 "[]"]
    enrich_bare enrich_all_abc
  by (simp add: absent_or_falsy_def sell_500_def)

text \<open>
  \<^bold>\<open>C9\<close>, as stated, fails: a non-numeric \<^verbatim>\<open>usd_amount\<close> raises \<^verbatim>\<open>ValueError\<close> and a
  string timestamp raises \<^verbatim>\<open>TypeError\<close> instead of coercing to zero, and a message that
  holds a well-formed Sell next to the malformed trade is dropped whole: nothing is
  stored and the well-formed Sell is not dispatched.
\<close>

theorem malformed_field_counterexample:
  "enrich ''714638'' 714638 1000 ''132'' (sell_500\<lparr>usd_amount := Some (JStr ''abc'' Rejected)\<rparr>) =
     Inl ValueError
   \<and> enrich ''714638'' 714638 1000 ''132'' (sell_500\<lparr>timestamp := Some (JStr ''abc'' Rejected)\<rparr>) =
     Inl TypeError
   \<and> receive_trade_update ''714638'' 714638 1000 1000 1000
        [(''132'', [sell_500, sell_500\<lparr>usd_amount := Some (JStr ''abc'' Rejected)\<rparr>])] [] = ([], [])"
  using enrich_abc receive_dropped[OF enrich_all_abc, of 1000 1000 "[]"]
  by (simp add: enrich_def ts_seconds_def sell_500_def)


section \<open>Periodic report\<close>

lemma stat_of_update:
  "stat_of (AList.update k v stats) k' = (if k' = k then v else stat_of stats k')"
  by (simp add: stat_of_def update_conv')

lemma side_amounts_Cons:
  "side_amounts sd (m # ms) =
     (if u_side (m_trade m) = sd then u_usd (m_trade m) # side_amounts sd ms
      else side_amounts sd ms)"
  by (simp add: side_amounts_def)

lemma side_amounts_Nil [simp]: "side_amounts sd [] = []"
  by (simp add: side_amounts_def)

lemma extend_stat_Nil [simp]: "extend_stat st [] = st"
  by (simp add: extend_stat_def)

lemma extend_stat_Cons:
  "extend_stat st (m # ms) = extend_stat (bump_stat (u_side (m_trade m)) (u_usd (m_trade m)) st) ms"
  by (cases "u_side (m_trade m)") (simp_all add: extend_stat_def bump_stat_def side_amounts_Cons)

lemma on_market_Cons:
  "on_market k (m # ms) = (if report_market m = k then m # on_market k ms else on_market k ms)"
  by (simp add: on_market_def)

lemma aggregate_result:
  assumes "list_all readable ms" and "distinct (map fst stats)"
  shows "\<exists>stats'. aggregate ms stats tb tsl =
            Inr (stats', foldl fadd tb (side_amounts buy ms), foldl fadd tsl (side_amounts sell ms))
          \<and> distinct (map fst stats')
          \<and> set (map fst stats') = set (map fst stats) \<union> report_market ` set ms
          \<and> (\<forall>k. stat_of stats' k = extend_stat (stat_of stats k) (on_market k ms))"
  using assms
proof (induction ms arbitrary: stats tb tsl)
  case Nil
  show ?case by (simp add: Nil on_market_def)
next
  case (Cons m ms)
  let ?k = "report_market m"
  let ?usd = "u_usd (m_trade m)"
  let ?sd = "u_side (m_trade m)"
  let ?stats1 = "AList.update ?k (bump_stat ?sd ?usd (stat_of stats ?k)) stats"
  let ?tb1 = "if ?sd = buy then fadd tb ?usd else tb"
  let ?ts1 = "if ?sd = sell then fadd tsl ?usd else tsl"
  from Cons.prems(1) have "readable m" and rest: "list_all readable ms"
    by simp_all
  then have rd: "report_usd m = Inr ?usd" by (simp add: readable_def)
  have d1: "distinct (map fst ?stats1)" by (rule distinct_update[OF Cons.prems(2)])
  obtain stats' where
    agg: "aggregate ms ?stats1 ?tb1 ?ts1 =
          Inr (stats', foldl fadd ?tb1 (side_amounts buy ms), foldl fadd ?ts1 (side_amounts sell ms))"
    and d': "distinct (map fst stats')"
    and keys: "set (map fst stats') = set (map fst ?stats1) \<union> report_market ` set ms"
    and st: "\<forall>k. stat_of stats' k = extend_stat (stat_of ?stats1 k) (on_market k ms)"
    using Cons.IH[OF rest d1, of ?tb1 ?ts1] by blast
  have tot_b: "foldl fadd ?tb1 (side_amounts buy ms) = foldl fadd tb (side_amounts buy (m # ms))"
    by (simp add: side_amounts_Cons)
  have tot_s: "foldl fadd ?ts1 (side_amounts sell ms) = foldl fadd tsl (side_amounts sell (m # ms))"
    by (simp add: side_amounts_Cons)
  have e1: "aggregate (m # ms) stats tb tsl =
            Inr (stats', foldl fadd tb (side_amounts buy (m # ms)),
                 foldl fadd tsl (side_amounts sell (m # ms)))"
    using agg rd unfolding tot_b tot_s by simp
  have k1: "set (map fst ?stats1) = insert ?k (set (map fst stats))"
    by (auto simp: update_keys)
  have e3: "set (map fst stats') = set (map fst stats) \<union> report_market ` set (m # ms)"
    using keys k1 by auto
  have e4: "stat_of stats' k = extend_stat (stat_of stats k) (on_market k (m # ms))" for k
  proof (cases "?k = k")
    case True
    have "stat_of stats' k = extend_stat (bump_stat ?sd ?usd (stat_of stats k)) (on_market k ms)"
      using st True by (simp add: stat_of_update)
    also have "\<dots> = extend_stat (stat_of stats k) (m # on_market k ms)"
      by (rule extend_stat_Cons[symmetric])
    finally show ?thesis using True by (simp add: on_market_Cons)
  next
    case False
    then show ?thesis using st by (simp add: stat_of_update on_market_Cons)
  qed
  show ?case using e1 d' e3 e4 by blast
qed

lemma extend_empty_stat: "extend_stat empty_stat (on_market k ms) = market_line ms k"
  by (simp add: extend_stat_def empty_stat_def market_line_def side_volume_def)

lemma insort_key_fst_map:
  "insort_key fst (k, g k) (map (\<lambda>k. (k, g k)) ks) = map (\<lambda>k. (k, g k)) (insort k ks)"
  by (induction ks) simp_all

lemma sort_key_fst_map:
  "sort_key fst (map (\<lambda>k. (k, g k)) ks) = map (\<lambda>k. (k, g k)) (sort ks)"
  by (induction ks) (simp_all add: insort_key_fst_map)

lemma stats_by_key:
  assumes "distinct (map fst stats)" and "\<And>k. stat_of stats k = g k"
  shows "stats = map (\<lambda>k. (k, g k)) (map fst stats)"
proof -
  have "(fst p, g (fst p)) = p" if "p \<in> set stats" for p
  proof -
    obtain k v where p: "p = (k, v)" by (cases p)
    from that p assms(1) have "map_of stats k = Some v" by simp
    then have "stat_of stats k = v" by (simp add: stat_of_def)
    with assms(2) p show ?thesis by simp
  qed
  then have "map (\<lambda>p. (fst p, g (fst p))) stats = stats" by (rule map_idI)
  then show ?thesis by (simp add: comp_def)
qed

lemma report_lines:
  assumes "distinct (map fst stats)" and "set (map fst stats) = set ks"
    and "\<And>k. stat_of stats k = g k"
  shows "sort_key fst stats = map (\<lambda>k. (k, g k)) (sort (remdups ks))"
    and "length stats = length (remdups ks)"
proof -
  have "sort (map fst stats) = sort (remdups ks)"
    using assms(1,2) by (intro sorted_distinct_set_unique) auto
  moreover have "sort_key fst stats = map (\<lambda>k. (k, g k)) (sort (map fst stats))"
    using stats_by_key[OF assms(1,3)] sort_key_fst_map[of g "map fst stats"] by simp
  ultimately show "sort_key fst stats = map (\<lambda>k. (k, g k)) (sort (remdups ks))" by simp
  have "length (map fst stats) = card (set (map fst stats))"
    using assms(1) by (simp only: distinct_card)
  also have "\<dots> = length (remdups ks)"
    by (simp only: assms(2) length_remdups_card_conv)
  finally show "length stats = length (remdups ks)" by simp
qed

lemma post_trade_report_closed:
  assumes "list_all readable ms" and "ms \<noteq> []"
  shows "post_trade_report True (Some ms) =
      Inr (Some \<lparr>total_buy = side_volume buy ms, total_sell = side_volume sell ms,
                 breakdown =
                   (if 1 < length (remdups (map report_market ms))
                    then Some (map (\<lambda>k. (k, market_line ms k))
                                   (sort (remdups (map report_market ms))))
                    else None)\<rparr>)"
proof -
  obtain stats where
    agg: "aggregate ms [] (Some 0) (Some 0) =
            Inr (stats, foldl fadd (Some 0) (side_amounts buy ms),
                 foldl fadd (Some 0) (side_amounts sell ms))"
    and d: "distinct (map fst stats)"
    and keys: "set (map fst stats) = set (map fst []) \<union> report_market ` set ms"
    and st: "\<forall>k. stat_of stats k =
               extend_stat (stat_of ([] :: (string \<times> market_stat) list) k) (on_market k ms)"
    using aggregate_result[OF assms(1), of "[]" "Some 0" "Some 0"] by auto
  have keys': "set (map fst stats) = set (map report_market ms)" using keys by simp
  have st': "stat_of stats k = market_line ms k" for k
    using st by (simp add: stat_of_def extend_empty_stat)
  note lines = report_lines[OF d keys' st']
  show ?thesis using assms(2) agg lines
    by (simp add: post_trade_report_def side_volume_def)
qed

text \<open>
  \<^bold>\<open>C8\<close>, as the code has it, for a window whose trades all have a readable amount (every
  trade the normalizer stored has one, \<open>enrich_readable\<close>). A tick sends nothing when the
  bot reference is missing, when the Redis read raised, or when the window is empty.
  Otherwise it sends exactly one message. Its totals are the float sums, taken from left
  to right in window order, of the amounts of the buys and of the sells. It carries the
  per-market section only when the window has trades on more than one market; the section
  then has one line for each market, in ascending order of the market strings, with that
  market's buy and sell counts and float volumes. A window on a single market gets the
  totals and no per-market line.
\<close>

theorem report_emission:
  assumes "list_all readable ms"
  shows "post_trade_report bot_set None = Inr None
   \<and> post_trade_report False fetched = Inr None
   \<and> post_trade_report True (Some ms) =
     (if ms = [] then Inr None
      else Inr (Some \<lparr>total_buy = side_volume buy ms, total_sell = side_volume sell ms,
                      breakdown =
                        (if 1 < length (remdups (map report_market ms))
                         then Some (map (\<lambda>k. (k, market_line ms k))
                                        (sort (remdups (map report_market ms))))
                         else None)\<rparr>))"
proof (intro conjI)
  show "post_trade_report bot_set None = Inr None"
    by (simp add: post_trade_report_def)
  show "post_trade_report False fetched = Inr None"
    by (simp add: post_trade_report_def)
  show "post_trade_report True (Some ms) =
     (if ms = [] then Inr None
      else Inr (Some \<lparr>total_buy = side_volume buy ms, total_sell = side_volume sell ms,
                      breakdown =
                        (if 1 < length (remdups (map report_market ms))
                         then Some (map (\<lambda>k. (k, market_line ms k))
                                        (sort (remdups (map report_market ms))))
                         else None)\<rparr>))"
  proof (cases "ms = []")
    case True
    then show ?thesis by (simp add: post_trade_report_def)
  next
    case False
    then show ?thesis using post_trade_report_closed[OF assms False] by simp
  qed
qed

lemma enrich_readable:
  assumes "enrich a ai now mk t = Inr e"
  shows "readable (member_of e)"
proof -
  have "float_or_zero (usd_amount t) = Inr (u_usd e)" and "raw e = t"
    using assms by (auto simp: enrich_def split: sum.splits)
  then show ?thesis by (simp add: readable_def report_usd_def member_of_def)
qed

lemma window_trade_readable: "readable (window_trade i mk sd usd)"
  by (simp add: readable_def report_usd_def window_trade_def member_of_def float_or_zero_def)

lemma window_trade_fields:
  "report_market (window_trade i mk sd usd) = mk"
  "u_side (m_trade (window_trade i mk sd usd)) = sd"
  "u_usd (m_trade (window_trade i mk sd usd)) = Some usd"
  by (simp_all add: report_market_def window_trade_def member_of_def)

lemma fadd_Some: "fadd (Some x) (Some y) = to_double (x + y)"
  by (simp add: fadd_def)

theorem report_emission_witness:
  "list_all readable
     [window_trade 1 ''M2'' buy 100, window_trade 2 ''M1'' sell 50, window_trade 3 ''M1'' sell 25]
   \<and> post_trade_report True
       (Some [window_trade 1 ''M2'' buy 100, window_trade 2 ''M1'' sell 50,
              window_trade 3 ''M1'' sell 25]) =
     Inr (Some \<lparr>total_buy = Some 100, total_sell = Some 75,
                breakdown = Some [(''M1'', \<lparr>buy_count = 0, sell_count = 2, buy_vol = Some 0, sell_vol = Some 75\<rparr>),
                                  (''M2'', \<lparr>buy_count = 1, sell_count = 0, buy_vol = Some 100, sell_vol = Some 0\<rparr>)]\<rparr>)
   \<and> post_trade_report True (Some []) = Inr None"
  using report_emission
    [of "[window_trade 1 ''M2'' buy 100, window_trade 2 ''M1'' sell 50, window_trade 3 ''M1'' sell 25]"
        True "Some []"]
    report_emission[of "[]" True "Some []"]
  by (simp add: window_trade_readable window_trade_fields side_volume_def market_line_def
      side_amounts_def on_market_def fadd_Some)

text \<open>
  \<^bold>\<open>C8\<close>, as stated, fails on its scenario: for the window Buy 100, Sell 50, Sell 25 on
  the single market M1 the report shows the totals 100 and 75 and has no per-market line,
  because the section is written only \<^verbatim>\<open>if len(market_stats) > 1\<close>.
\<close>

theorem single_market_report_counterexample:
  "post_trade_report True
       (Some [window_trade 1 ''M1'' buy 100, window_trade 2 ''M1'' sell 50,
              window_trade 3 ''M1'' sell 25]) =
     Inr (Some \<lparr>total_buy = Some 100, total_sell = Some 75, breakdown = None\<rparr>)"
  by (simp add: post_trade_report_def report_usd_def report_market_def window_trade_def
      member_of_def stat_of_def bump_stat_def empty_stat_def fadd_Some)
















end
